theory Spec2Isabelle
  imports Complex_Main "HOL-Library.Sublist"
begin

section \<open>Crisis risk assessment and escalation: the safety service\<close>

text \<open>
  A shallow embedding of \<^verbatim>\<open>SafetyService\<close> in \<^verbatim>\<open>services/safety_service.py\<close>:
  the keyword and pattern matchers, the session context analysis, the aggregation of
  the crisis level, the classification, the urgency mapping, the per-session tracking
  list and the escalation check.
\<close>

subsection \<open>Python values\<close>

text \<open>
  A Python \<^verbatim>\<open>str\<close> is a sequence of Unicode code points. The trigger terms of the
  service are Arabic, so free text is a list of code points; the fixed ASCII labels of
  the service (category names, crisis types, urgency tiers, session identifiers) are
  written as HOL strings.
\<close>

type_synonym ustr = "nat list"

text \<open>
  The message argument is annotated \<^verbatim>\<open>str\<close>, which Python does not enforce: a
  message that is \<^verbatim>\<open>None\<close> makes \<^verbatim>\<open>message.lower()\<close> raise.
\<close>

datatype py_value = PyStr ustr | PyNone

text \<open>
  The exceptions of the model: the \<^verbatim>\<open>AttributeError\<close> of \<^verbatim>\<open>None.lower()\<close>, and an
  exception raised by the database manager, with its message.
\<close>

datatype py_error = AttributeError | CollaboratorError string

text \<open>\<^verbatim>\<open>str(e)\<close>, as stored in the \<^verbatim>\<open>error\<close> entry of the fallback verdict.\<close>

fun str_of_error :: "py_error \<Rightarrow> string" where
  "str_of_error AttributeError =
     [CHR 0x27] @ ''NoneType'' @ [CHR 0x27] @ '' object has no attribute '' @
     [CHR 0x27] @ ''lower'' @ [CHR 0x27]"
| "str_of_error (CollaboratorError msg) = msg"

text \<open>\<^verbatim>\<open>k in s\<close> on strings: \<open>k\<close> occurs in \<open>s\<close> as a contiguous block.\<close>

fun py_in :: "'a list \<Rightarrow> 'a list \<Rightarrow> bool" where
  "py_in k [] = (k = [])"
| "py_in k (c # cs) = (prefix k (c # cs) \<or> py_in k cs)"

text \<open>The slice \<^verbatim>\<open>xs[-n:]\<close> for a positive \<open>n\<close>: the last \<open>n\<close> elements, or all of them.\<close>

definition last_n :: "nat \<Rightarrow> 'a list \<Rightarrow> 'a list" where
  "last_n n xs = drop (length xs - n) xs"

text \<open>\<^verbatim>\<open>int(x)\<close> on a number: truncation towards zero.\<close>

definition py_int :: "rat \<Rightarrow> int" where
  "py_int x = (if 0 \<le> x then \<lfloor>x\<rfloor> else \<lceil>x\<rceil>)"

subsection \<open>Configuration: thresholds and trigger terms\<close>

text \<open>The entries of \<^verbatim>\<open>self.crisis_thresholds\<close>.\<close>

definition threshold_low :: int where "threshold_low = 3"
definition threshold_medium :: int where "threshold_medium = 5"
definition threshold_high :: int where "threshold_high = 7"
definition threshold_critical :: int where "threshold_critical = 9"

text \<open>
  The term lists of \<^verbatim>\<open>_load_crisis_keywords\<close>, of the four word lists of
  \<^verbatim>\<open>_analyze_crisis_patterns\<close>, and the fixed texts of the recommendations, each term
  as its code points, in the order of the source.
\<close>

definition suicide_keywords :: "ustr list" where
  "suicide_keywords =
    [[0x627, 0x646, 0x62A, 0x62D, 0x627, 0x631],
     [0x623, 0x642, 0x62A, 0x644, 0x20, 0x646, 0x641, 0x633, 0x64A],
     [0x623, 0x646, 0x647, 0x64A, 0x20, 0x62D, 0x64A, 0x627, 0x62A, 0x64A],
     [0x644, 0x627, 0x20, 0x623, 0x631, 0x64A, 0x62F, 0x20, 0x627, 0x644, 0x639, 0x64A, 0x634],
     [0x623, 0x645, 0x648, 0x62A],
     [0x623, 0x631, 0x64A, 0x62F, 0x20, 0x623, 0x646, 0x20, 0x623, 0x645, 0x648, 0x62A],
     [0x645, 0x627, 0x20, 0x639, 0x62F, 0x62A, 0x20, 0x623, 0x631, 0x64A, 0x62F, 0x20, 0x627, 0x644, 0x639, 0x64A, 0x634],
     [0x627, 0x646, 0x62A, 0x647, 0x64A, 0x62A],
     [0x633, 0x623, 0x646, 0x647, 0x64A, 0x20, 0x647, 0x630, 0x627],
     [0x623, 0x641, 0x636, 0x644, 0x20, 0x623, 0x646, 0x20, 0x623, 0x645, 0x648, 0x62A],
     [0x627, 0x644, 0x645, 0x648, 0x62A, 0x20, 0x623, 0x641, 0x636, 0x644],
     [0x644, 0x627, 0x20, 0x641, 0x627, 0x626, 0x62F, 0x629]]"

definition self_harm_keywords :: "ustr list" where
  "self_harm_keywords =
    [[0x623, 0x624, 0x630, 0x64A, 0x20, 0x646, 0x641, 0x633, 0x64A],
     [0x623, 0x62C, 0x631, 0x62D, 0x20, 0x646, 0x641, 0x633, 0x64A],
     [0x623, 0x636, 0x631, 0x628, 0x20, 0x646, 0x641, 0x633, 0x64A],
     [0x623, 0x62D, 0x631, 0x642, 0x20, 0x646, 0x641, 0x633, 0x64A],
     [0x623, 0x642, 0x637, 0x639, 0x20, 0x646, 0x641, 0x633, 0x64A],
     [0x623, 0x639, 0x630, 0x628, 0x20, 0x646, 0x641, 0x633, 0x64A],
     [0x623, 0x630, 0x64A, 0x629, 0x20, 0x627, 0x644, 0x646, 0x641, 0x633],
     [0x62C, 0x631, 0x648, 0x62D],
     [0x623, 0x633, 0x62A, 0x62D, 0x642, 0x20, 0x627, 0x644, 0x623, 0x644, 0x645],
     [0x623, 0x639, 0x627, 0x642, 0x628, 0x20, 0x646, 0x641, 0x633, 0x64A]]"

definition hopelessness_keywords :: "ustr list" where
  "hopelessness_keywords =
    [[0x644, 0x627, 0x20, 0x623, 0x645, 0x644],
     [0x645, 0x64A, 0x624, 0x648, 0x633],
     [0x641, 0x642, 0x62F, 0x62A, 0x20, 0x627, 0x644, 0x623, 0x645, 0x644],
     [0x644, 0x627, 0x20, 0x641, 0x627, 0x626, 0x62F, 0x629],
     [0x645, 0x633, 0x62A, 0x62D, 0x64A, 0x644],
     [0x644, 0x646, 0x20, 0x64A, 0x62A, 0x62D, 0x633, 0x646],
     [0x627, 0x646, 0x62A, 0x647, 0x649, 0x20, 0x627, 0x644, 0x623, 0x645, 0x631],
     [0x644, 0x627, 0x20, 0x645, 0x639, 0x646, 0x649],
     [0x641, 0x627, 0x631, 0x63A],
     [0x636, 0x627, 0x626, 0x639],
     [0x644, 0x627, 0x20, 0x623, 0x633, 0x62A, 0x637, 0x64A, 0x639],
     [0x639, 0x627, 0x62C, 0x632]]"

definition isolation_keywords :: "ustr list" where
  "isolation_keywords =
    [[0x648, 0x62D, 0x64A, 0x62F],
     [0x644, 0x627, 0x20, 0x623, 0x62D, 0x62F],
     [0x645, 0x646, 0x639, 0x632, 0x644],
     [0x645, 0x647, 0x62C, 0x648, 0x631],
     [0x645, 0x646, 0x633, 0x64A],
     [0x644, 0x627, 0x20, 0x623, 0x62D, 0x62F, 0x20, 0x64A, 0x647, 0x62A, 0x645],
     [0x644, 0x627, 0x20, 0x623, 0x62D, 0x62F, 0x20, 0x64A, 0x641, 0x647, 0x645],
     [0x628, 0x645, 0x641, 0x631, 0x62F, 0x64A],
     [0x645, 0x639, 0x632, 0x648, 0x644]]"

definition substance_abuse_keywords :: "ustr list" where
  "substance_abuse_keywords =
    [[0x645, 0x62E, 0x62F, 0x631, 0x627, 0x62A],
     [0x643, 0x62D, 0x648, 0x644],
     [0x634, 0x631, 0x628],
     [0x625, 0x62F, 0x645, 0x627, 0x646],
     [0x645, 0x62F, 0x645, 0x646],
     [0x62D, 0x628, 0x648, 0x628],
     [0x645, 0x648, 0x627, 0x62F],
     [0x62A, 0x639, 0x627, 0x637, 0x64A],
     [0x633, 0x643, 0x631, 0x627, 0x646],
     [0x645, 0x62E, 0x645, 0x648, 0x631]]"

definition violence_keywords :: "ustr list" where
  "violence_keywords =
    [[0x623, 0x636, 0x631, 0x628],
     [0x623, 0x639, 0x62A, 0x62F, 0x64A],
     [0x623, 0x624, 0x630, 0x64A, 0x20, 0x627, 0x644, 0x622, 0x62E, 0x631, 0x64A, 0x646],
     [0x639, 0x646, 0x641],
     [0x642, 0x62A, 0x644],
     [0x623, 0x642, 0x62A, 0x644],
     [0x623, 0x647, 0x62F, 0x62F],
     [0x627, 0x646, 0x62A, 0x642, 0x627, 0x645],
     [0x623, 0x62F, 0x645, 0x631],
     [0x623, 0x62D, 0x637, 0x645]]"

definition psychosis_keywords :: "ustr list" where
  "psychosis_keywords =
    [[0x623, 0x633, 0x645, 0x639, 0x20, 0x623, 0x635, 0x648, 0x627, 0x62A],
     [0x623, 0x631, 0x649, 0x20, 0x623, 0x634, 0x64A, 0x627, 0x621],
     [0x64A, 0x62A, 0x62D, 0x62F, 0x62B, 0x648, 0x646, 0x20, 0x639, 0x646, 0x64A],
     [0x64A, 0x631, 0x627, 0x642, 0x628, 0x648, 0x646, 0x646, 0x64A],
     [0x645, 0x624, 0x627, 0x645, 0x631, 0x629],
     [0x64A, 0x62A, 0x628, 0x639, 0x648, 0x646, 0x646, 0x64A],
     [0x623, 0x641, 0x643, 0x627, 0x631, 0x20, 0x63A, 0x631, 0x64A, 0x628, 0x629],
     [0x644, 0x633, 0x62A, 0x20, 0x623, 0x646, 0x627]]"

definition finality_words :: "ustr list" where
  "finality_words =
    [[0x622, 0x62E, 0x631, 0x20, 0x645, 0x631, 0x629],
     [0x644, 0x646, 0x20, 0x623, 0x639, 0x648, 0x62F],
     [0x627, 0x646, 0x62A, 0x647, 0x649, 0x20, 0x627, 0x644, 0x623, 0x645, 0x631],
     [0x644, 0x627, 0x20, 0x631, 0x62C, 0x639, 0x629],
     [0x646, 0x647, 0x627, 0x64A, 0x629]]"

definition goodbye_words :: "ustr list" where
  "goodbye_words =
    [[0x648, 0x62F, 0x627, 0x639],
     [0x645, 0x639, 0x20, 0x627, 0x644, 0x633, 0x644, 0x627, 0x645, 0x629, 0x20, 0x625, 0x644, 0x649, 0x20, 0x627, 0x644, 0x623, 0x628, 0x62F],
     [0x644, 0x646, 0x20, 0x646, 0x644, 0x62A, 0x642, 0x64A],
     [0x627, 0x639, 0x62A, 0x646, 0x648, 0x627, 0x20, 0x628, 0x623, 0x646, 0x641, 0x633, 0x643, 0x645]]"

definition extreme_words :: "ustr list" where
  "extreme_words =
    [[0x62F, 0x627, 0x626, 0x645, 0x627, 0x64B],
     [0x623, 0x628, 0x62F, 0x627, 0x64B],
     [0x643, 0x644, 0x20, 0x634, 0x64A, 0x621],
     [0x644, 0x627, 0x20, 0x634, 0x64A, 0x621],
     [0x627, 0x644, 0x623, 0x633, 0x648, 0x623],
     [0x645, 0x633, 0x62A, 0x62D, 0x64A, 0x644]]"

definition worthless_words :: "ustr list" where
  "worthless_words =
    [[0x644, 0x627, 0x20, 0x642, 0x64A, 0x645, 0x629, 0x20, 0x644, 0x64A],
     [0x639, 0x62F, 0x64A, 0x645, 0x20, 0x627, 0x644, 0x641, 0x627, 0x626, 0x62F, 0x629],
     [0x641, 0x627, 0x634, 0x644],
     [0x644, 0x627, 0x20, 0x623, 0x633, 0x62A, 0x62D, 0x642],
     [0x639, 0x628, 0x621]]"

definition rec_immediate :: "ustr list" where
  "rec_immediate =
    [[0x62A, 0x62F, 0x62E, 0x644, 0x20, 0x641, 0x648, 0x631, 0x64A, 0x20, 0x645, 0x637, 0x644, 0x648, 0x628],
     [0x62A, 0x62D, 0x648, 0x64A, 0x644, 0x20, 0x644, 0x644, 0x637, 0x648, 0x627, 0x631, 0x626, 0x20, 0x627, 0x644, 0x646, 0x641, 0x633, 0x64A, 0x629],
     [0x639, 0x62F, 0x645, 0x20, 0x62A, 0x631, 0x643, 0x20, 0x627, 0x644, 0x645, 0x633, 0x62A, 0x62E, 0x62F, 0x645, 0x20, 0x648, 0x62D, 0x64A, 0x62F, 0x627, 0x64B],
     [0x62A, 0x641, 0x639, 0x64A, 0x644, 0x20, 0x628, 0x631, 0x648, 0x62A, 0x648, 0x643, 0x648, 0x644, 0x20, 0x627, 0x644, 0x637, 0x648, 0x627, 0x631, 0x626]]"

definition rec_urgent :: "ustr list" where
  "rec_urgent =
    [[0x645, 0x631, 0x627, 0x642, 0x628, 0x629, 0x20, 0x645, 0x633, 0x62A, 0x645, 0x631, 0x629, 0x20, 0x645, 0x637, 0x644, 0x648, 0x628, 0x629],
     [0x62A, 0x62D, 0x648, 0x64A, 0x644, 0x20, 0x644, 0x645, 0x62E, 0x62A, 0x635, 0x20, 0x641, 0x64A, 0x20, 0x623, 0x642, 0x631, 0x628, 0x20, 0x648, 0x642, 0x62A],
     [0x625, 0x634, 0x631, 0x627, 0x643, 0x20, 0x627, 0x644, 0x623, 0x633, 0x631, 0x629, 0x20, 0x625, 0x630, 0x627, 0x20, 0x623, 0x645, 0x643, 0x646],
     [0x645, 0x62A, 0x627, 0x628, 0x639, 0x629, 0x20, 0x62E, 0x644, 0x627, 0x644, 0x20, 0x32, 0x34, 0x20, 0x633, 0x627, 0x639, 0x629]]"

definition rec_moderate :: "ustr list" where
  "rec_moderate =
    [[0x62A, 0x642, 0x64A, 0x64A, 0x645, 0x20, 0x62F, 0x648, 0x631, 0x64A, 0x20, 0x644, 0x644, 0x62D, 0x627, 0x644, 0x629],
     [0x62A, 0x639, 0x632, 0x64A, 0x632, 0x20, 0x634, 0x628, 0x643, 0x629, 0x20, 0x627, 0x644, 0x62F, 0x639, 0x645],
     [0x62C, 0x62F, 0x648, 0x644, 0x629, 0x20, 0x645, 0x62A, 0x627, 0x628, 0x639, 0x629, 0x20, 0x62E, 0x644, 0x627, 0x644, 0x20, 0x623, 0x633, 0x628, 0x648, 0x639],
     [0x62A, 0x648, 0x641, 0x64A, 0x631, 0x20, 0x645, 0x648, 0x627, 0x631, 0x62F, 0x20, 0x627, 0x644, 0x645, 0x633, 0x627, 0x639, 0x62F, 0x629, 0x20, 0x627, 0x644, 0x630, 0x627, 0x62A, 0x64A, 0x629]]"

definition rec_other :: "ustr list" where
  "rec_other =
    [[0x645, 0x648, 0x627, 0x635, 0x644, 0x629, 0x20, 0x627, 0x644, 0x62F, 0x639, 0x645, 0x20, 0x627, 0x644, 0x639, 0x627, 0x637, 0x641, 0x64A],
     [0x645, 0x631, 0x627, 0x642, 0x628, 0x629, 0x20, 0x627, 0x644, 0x62A, 0x637, 0x648, 0x631],
     [0x62A, 0x639, 0x632, 0x64A, 0x632, 0x20, 0x622, 0x644, 0x64A, 0x627, 0x62A, 0x20, 0x627, 0x644, 0x62A, 0x623, 0x642, 0x644, 0x645, 0x20, 0x627, 0x644, 0x635, 0x62D, 0x64A, 0x629]]"

definition esc_immediate :: "ustr" where
  "esc_immediate =
    [0x62A, 0x62F, 0x62E, 0x644, 0x20, 0x637, 0x648, 0x627, 0x631, 0x626, 0x20, 0x641, 0x648, 0x631, 0x64A, 0x20, 0x2D, 0x20, 0x627, 0x62A, 0x635, 0x644, 0x20, 0x628, 0x640, 0x20, 0x39, 0x39, 0x39]"

definition esc_sustained :: "ustr" where
  "esc_sustained =
    [0x62A, 0x62D, 0x648, 0x64A, 0x644, 0x20, 0x639, 0x627, 0x62C, 0x644, 0x20, 0x644, 0x637, 0x628, 0x64A, 0x628, 0x20, 0x646, 0x641, 0x633, 0x64A, 0x20, 0x645, 0x62A, 0x62E, 0x635, 0x635]"

definition esc_increasing :: "ustr" where
  "esc_increasing =
    [0x62A, 0x642, 0x64A, 0x64A, 0x645, 0x20, 0x646, 0x641, 0x633, 0x64A, 0x20, 0x634, 0x627, 0x645, 0x644, 0x20, 0x645, 0x637, 0x644, 0x648, 0x628]"

definition esc_failed :: "ustr" where
  "esc_failed =
    [0x625, 0x634, 0x631, 0x627, 0x641, 0x20, 0x637, 0x628, 0x64A, 0x20, 0x645, 0x628, 0x627, 0x634, 0x631, 0x20, 0x645, 0x637, 0x644, 0x648, 0x628]"

definition esc_none :: "ustr" where
  "esc_none =
    [0x645, 0x648, 0x627, 0x635, 0x644, 0x629, 0x20, 0x627, 0x644, 0x645, 0x631, 0x627, 0x642, 0x628, 0x629, 0x20, 0x648, 0x627, 0x644, 0x62F, 0x639, 0x645]"

text \<open>\<^verbatim>\<open>self.crisis_keywords\<close>: a dict, iterated in insertion order.\<close>

definition crisis_keywords :: "(string \<times> ustr list) list" where
  "crisis_keywords =
    [(''suicide'', suicide_keywords),
     (''self_harm'', self_harm_keywords),
     (''hopelessness'', hopelessness_keywords),
     (''isolation'', isolation_keywords),
     (''substance_abuse'', substance_abuse_keywords),
     (''violence'', violence_keywords),
     (''psychosis'', psychosis_keywords)]"

subsection \<open>The keyword matcher\<close>

text \<open>
  The scores of the source are Python numbers, integers and floats mixed
  (\<^verbatim>\<open>2.5\<close>, \<^verbatim>\<open>* 0.5\<close>, \<^verbatim>\<open>* 0.3\<close>, \<^verbatim>\<open>* 1.5\<close>). They are modelled as exact
  rationals. The only place where the value of a score is observed is the truncation
  \<^verbatim>\<open>int(total_score)\<close>, and there the rationals agree with the floats on every
  analysis that the two matchers produce, which is where the aggregation is applied: the
  category severity is then a multiple of \<open>1/2\<close> in \<open>[0, 10]\<close> and the pattern severity
  an integer in \<open>[0, 10]\<close> (lemma \<open>matcher_scores_grid\<close> below). Every summand except
  \<^verbatim>\<open>severity * 0.3\<close> is then a small multiple of \<open>1/4\<close> and exact in binary floating
  point; the exact total is a multiple of \<open>1/20\<close>, so it is either at least \<open>1/20\<close>
  away from the next integer, far more than the rounding error of the float, or an
  integer, which happens only for a pattern severity of 0, 5 or 10, where the float
  product is exactly 0.0, 1.5 or 3.0. On other arguments (a category severity of 0.2,
  say, which no message yields) the float sum can fall just below an integer that the
  exact sum reaches; the properties below that concern the value of the level are stated
  for the outputs of the matchers.
\<close>

fun category_weight :: "string \<Rightarrow> rat" where
  "category_weight category =
     (if category = ''suicide'' then 3
      else if category = ''self_harm'' then 5 / 2
      else if category = ''violence'' then 5 / 2
      else if category = ''psychosis'' then 2
      else 1)"

record keyword_match =
  km_matches :: "ustr list"
  km_count :: nat
  km_severity :: rat

record keyword_analysis =
  ka_matches :: "(string \<times> keyword_match) list"
  total_severity :: rat
  high_risk_categories :: "string list"

text \<open>The inner loop over the terms of one category.\<close>

fun scan_keywords :: "string \<Rightarrow> ustr \<Rightarrow> ustr list \<Rightarrow> ustr list \<times> rat \<Rightarrow> ustr list \<times> rat" where
  "scan_keywords category message_lower [] acc = acc"
| "scan_keywords category message_lower (keyword # keywords) (matches, category_severity) =
     (if py_in keyword message_lower
      then scan_keywords category message_lower keywords
             (matches @ [keyword], category_severity + category_weight category)
      else scan_keywords category message_lower keywords (matches, category_severity))"

text \<open>The outer loop over the categories.\<close>

fun scan_categories ::
  "ustr \<Rightarrow> (string \<times> ustr list) list \<Rightarrow> (string \<times> keyword_match) list \<times> rat
     \<Rightarrow> (string \<times> keyword_match) list \<times> rat" where
  "scan_categories message_lower [] acc = acc"
| "scan_categories message_lower ((category, keywords) # rest) (keyword_matches, running_total) =
     (case scan_keywords category message_lower keywords ([], 0) of
        (matches, category_severity) \<Rightarrow>
          if matches \<noteq> []
          then scan_categories message_lower rest
                 (keyword_matches @
                    [(category, \<lparr>km_matches = matches, km_count = length matches,
                                 km_severity = category_severity\<rparr>)],
                  running_total + category_severity)
          else scan_categories message_lower rest (keyword_matches, running_total))"

definition keyword_analysis_of :: "ustr \<Rightarrow> keyword_analysis" where
  "keyword_analysis_of message_lower =
     (case scan_categories message_lower crisis_keywords ([], 0) of
        (keyword_matches, running_total) \<Rightarrow>
          \<lparr>ka_matches = keyword_matches,
           total_severity = min 10 running_total,
           high_risk_categories =
             map fst (filter (\<lambda>(cat, data). cat \<in> set [''suicide'', ''self_harm'', ''violence'']
                                  \<and> km_count data > 0) keyword_matches)\<rparr>)"

text \<open>
  \<^verbatim>\<open>_analyze_crisis_keywords\<close>. The lowering \<^verbatim>\<open>str.lower\<close> of the Python library is a
  parameter of the model.
\<close>

definition analyze_crisis_keywords :: "(ustr \<Rightarrow> ustr) \<Rightarrow> py_value \<Rightarrow> py_error + keyword_analysis" where
  "analyze_crisis_keywords lower message =
     (case message of
        PyNone \<Rightarrow> Inl AttributeError
      | PyStr s \<Rightarrow> Inr (keyword_analysis_of (lower s)))"

subsection \<open>The pattern detector\<close>

record patterns =
  finality_statements :: nat
  goodbye_messages :: nat
  past_tense_future :: nat
  extreme_language :: nat
  isolation_expressions :: nat
  worthlessness :: nat
  burden_statements :: nat

record pattern_analysis =
  pa_patterns :: patterns
  pa_severity :: nat
  high_risk_patterns :: "string list"

text \<open>\<^verbatim>\<open>sum(1 for word in words if word in message_lower)\<close>.\<close>

definition count_in :: "ustr list \<Rightarrow> ustr \<Rightarrow> nat" where
  "count_in words message_lower = length (filter (\<lambda>word. py_in word message_lower) words)"

text \<open>\<^verbatim>\<open>patterns.items()\<close>, in the order in which the dict was built.\<close>

definition pattern_items :: "patterns \<Rightarrow> (string \<times> nat) list" where
  "pattern_items p =
    [(''finality_statements'', finality_statements p),
     (''goodbye_messages'', goodbye_messages p),
     (''past_tense_future'', past_tense_future p),
     (''extreme_language'', extreme_language p),
     (''isolation_expressions'', isolation_expressions p),
     (''worthlessness'', worthlessness p),
     (''burden_statements'', burden_statements p)]"

definition pattern_analysis_of :: "ustr \<Rightarrow> pattern_analysis" where
  "pattern_analysis_of message_lower =
     (let p = \<lparr>finality_statements = count_in finality_words message_lower,
               goodbye_messages = count_in goodbye_words message_lower,
               past_tense_future = 0,
               extreme_language = count_in extreme_words message_lower,
               isolation_expressions = 0,
               worthlessness = count_in worthless_words message_lower,
               burden_statements = 0\<rparr>;
          pattern_severity =
            finality_statements p * 3 + goodbye_messages p * 3 + past_tense_future p * 2 +
            extreme_language p * 1 + isolation_expressions p * 2 + worthlessness p * 2 +
            burden_statements p * 2
      in \<lparr>pa_patterns = p,
          pa_severity = min 10 pattern_severity,
          high_risk_patterns =
            map fst (filter (\<lambda>(pattern, count). count > 0 \<and>
                       pattern \<in> set [''finality_statements'', ''goodbye_messages'',
                                         ''burden_statements''])
                     (pattern_items p))\<rparr>)"

text \<open>\<^verbatim>\<open>_analyze_crisis_patterns\<close>.\<close>

definition analyze_crisis_patterns :: "(ustr \<Rightarrow> ustr) \<Rightarrow> py_value \<Rightarrow> py_error + pattern_analysis" where
  "analyze_crisis_patterns lower message =
     (case message of
        PyNone \<Rightarrow> Inl AttributeError
      | PyStr s \<Rightarrow> Inr (pattern_analysis_of (lower s)))"

subsection \<open>Session state and the collaborators\<close>

text \<open>An entry of \<^verbatim>\<open>self.session_crisis_history[session_id]\<close>.\<close>

record crisis_event =
  ev_timestamp :: nat
  ev_crisis_level :: int
  ev_crisis_type :: string

type_synonym session_crisis_history = "string \<rightharpoonup> crisis_event list"

text \<open>\<^verbatim>\<open>self.session_crisis_history.get(session_id, [])\<close>.\<close>

definition events_of :: "session_crisis_history \<Rightarrow> string \<Rightarrow> crisis_event list" where
  "events_of sch session_id = (case sch session_id of None \<Rightarrow> [] | Some evs \<Rightarrow> evs)"

text \<open>
  A message of the conversation history kept by the database manager; a field is
  \<open>None\<close> when the dict has no such key.
\<close>

record history_entry =
  he_user :: "ustr option"
  he_emotional_state :: "string option"

text \<open>The record handed to \<^verbatim>\<open>db_manager.log_crisis_event\<close>.\<close>

record crisis_data =
  cd_session_id :: string
  cd_timestamp :: nat
  cd_crisis_level :: int
  cd_crisis_type :: string
  cd_user_message :: ustr
  cd_intervention_response :: ustr
  cd_escalated :: bool
  cd_follow_up_needed :: bool

text \<open>
  What a call of \<^verbatim>\<open>analyze_safety\<close> takes from outside the service: the library's
  \<^verbatim>\<open>str.lower\<close>, the two methods of the database manager it calls (each may raise),
  and the readings of \<^verbatim>\<open>datetime.now()\<close> when the tracking entry and the crisis
  record are built.
\<close>

record world =
  str_lower :: "ustr \<Rightarrow> ustr"
  get_session_history :: "string \<Rightarrow> py_error + history_entry list"
  log_crisis_event :: "crisis_data \<Rightarrow> py_error + unit"
  tracking_now :: nat
  log_now :: nat

subsection \<open>Session context\<close>

record context_analysis =
  escalation_detected :: bool
  repeated_crisis_themes :: nat
  emotional_deterioration :: bool
  previous_interventions :: nat
  session_duration :: nat

definition initial_context :: context_analysis where
  "initial_context =
     \<lparr>escalation_detected = False, repeated_crisis_themes = 0,
      emotional_deterioration = False, previous_interventions = 0, session_duration = 0\<rparr>"

definition negative_emotions :: "string list" where
  "negative_emotions = [''sad'', ''anxious'', ''hopeless'', ''angry'']"

text \<open>
  \<^verbatim>\<open>_analyze_session_context\<close>; the current message is not used by the source. An
  exception of the database manager is caught and the untouched initial context returned.
\<close>

definition analyze_session_context ::
  "world \<Rightarrow> session_crisis_history \<Rightarrow> string \<Rightarrow> context_analysis" where
  "analyze_session_context w sch session_id =
     (case get_session_history w session_id of
        Inl e \<Rightarrow> initial_context
      | Inr history \<Rightarrow>
          if history = [] then initial_context
          else
            let recent_messages = (if length history \<ge> 3 then last_n 3 history else history);
                crisis_indicators_count =
                  sum_list (map (\<lambda>msg.
                      let user_msg = str_lower w (case he_user msg of None \<Rightarrow> [] | Some u \<Rightarrow> u)
                      in sum_list (map (\<lambda>(category, keywords). count_in keywords user_msg)
                                    crisis_keywords))
                    recent_messages);
                emotions = map (\<lambda>msg. case he_emotional_state msg of None \<Rightarrow> [] | Some e \<Rightarrow> e)
                             history;
                recent_negative =
                  length (filter (\<lambda>emotion. emotion \<in> set negative_emotions) (last_n 5 emotions));
                session_crisis_data = events_of sch session_id
            in \<lparr>escalation_detected = crisis_indicators_count > 2,
                repeated_crisis_themes = crisis_indicators_count,
                emotional_deterioration = recent_negative \<ge> 3,
                previous_interventions = length session_crisis_data,
                session_duration = 0\<rparr>)"

subsection \<open>Aggregation, classification, urgency\<close>

text \<open>\<^verbatim>\<open>_calculate_crisis_level\<close>.\<close>

definition calculate_crisis_level ::
  "keyword_analysis \<Rightarrow> pattern_analysis \<Rightarrow> context_analysis \<Rightarrow> int" where
  "calculate_crisis_level keyword_analysis pattern_analysis context_analysis =
     (let keyword_score = total_severity keyword_analysis * (1 / 2);
          pattern_score = of_nat (pa_severity pattern_analysis) * (3 / 10);
          context_score0 = (0 :: rat);
          context_score1 =
            (if escalation_detected context_analysis then context_score0 + 2 else context_score0);
          context_score2 =
            (if emotional_deterioration context_analysis then context_score1 + 1 else context_score1);
          context_score3 =
            (if previous_interventions context_analysis > 1 then context_score2 + 1
             else context_score2);
          hrc = high_risk_categories keyword_analysis;
          context_score =
            (if hrc \<noteq> [] then context_score3 + of_nat (length hrc) * (3 / 2) else context_score3);
          total_score = keyword_score + pattern_score + context_score
      in max 0 (min 10 (py_int total_score)))"

text \<open>\<^verbatim>\<open>_determine_crisis_type\<close>: the first matching branch decides.\<close>

definition determine_crisis_type :: "keyword_analysis \<Rightarrow> pattern_analysis \<Rightarrow> string" where
  "determine_crisis_type keyword_analysis pattern_analysis =
     (let keyword_matches = map fst (ka_matches keyword_analysis) in
      if ''suicide'' \<in> set keyword_matches then ''suicide_risk''
      else if ''self_harm'' \<in> set keyword_matches then ''self_harm_risk''
      else if ''violence'' \<in> set keyword_matches then ''violence_risk''
      else if ''psychosis'' \<in> set keyword_matches then ''mental_health_emergency''
      else if ''substance_abuse'' \<in> set keyword_matches then ''substance_abuse''
      else if ''hopelessness'' \<in> set keyword_matches then ''severe_depression''
      else if ''isolation'' \<in> set keyword_matches then ''social_crisis''
      else if ''finality_statements'' \<in> set (high_risk_patterns pattern_analysis)
        then ''suicide_risk''
      else if ''goodbye_messages'' \<in> set (high_risk_patterns pattern_analysis)
        then ''suicide_risk''
      else ''emotional_distress'')"

text \<open>
  \<^verbatim>\<open>_assess_urgency\<close>: a chain of early returns. The two tests nested under the
  test of the crisis type are written as two branches that repeat it.
\<close>

definition assess_urgency :: "int \<Rightarrow> string \<Rightarrow> context_analysis \<Rightarrow> string" where
  "assess_urgency crisis_lvl crisis_typ context_analysis =
     (if crisis_lvl \<ge> 9 then ''immediate''
      else if crisis_typ \<in> set [''suicide_risk'', ''violence_risk'', ''mental_health_emergency'']
              \<and> crisis_lvl \<ge> 7 then ''immediate''
      else if crisis_typ \<in> set [''suicide_risk'', ''violence_risk'', ''mental_health_emergency'']
              \<and> crisis_lvl \<ge> 5 then ''urgent''
      else if escalation_detected context_analysis \<and> crisis_lvl \<ge> 6 then ''urgent''
      else if crisis_lvl \<ge> 7 then ''urgent''
      else if crisis_lvl \<ge> 5 then ''moderate''
      else if crisis_lvl \<ge> 3 then ''low''
      else ''none'')"

text \<open>\<^verbatim>\<open>_get_safety_recommendations\<close>.\<close>

definition get_safety_recommendations :: "int \<Rightarrow> string \<Rightarrow> ustr list" where
  "get_safety_recommendations crisis_lvl urg =
     (if urg = ''immediate'' then rec_immediate
      else if urg = ''urgent'' then rec_urgent
      else if urg = ''moderate'' then rec_moderate
      else rec_other)"

subsection \<open>Session tracking and the crisis log\<close>

text \<open>
  \<^verbatim>\<open>_update_session_crisis_tracking\<close>: the entry is appended, then the list is cut
  to its last ten entries.
\<close>

definition update_session_crisis_tracking ::
  "nat \<Rightarrow> session_crisis_history \<Rightarrow> string \<Rightarrow> int \<Rightarrow> string \<Rightarrow> session_crisis_history" where
  "update_session_crisis_tracking now sch session_id crisis_lvl crisis_typ =
     (let sch1 = (if sch session_id = None then sch(session_id \<mapsto> []) else sch);
          evs = events_of sch1 session_id @
                  [\<lparr>ev_timestamp = now, ev_crisis_level = crisis_lvl, ev_crisis_type = crisis_typ\<rparr>];
          sch2 = sch1(session_id \<mapsto> evs)
      in if length evs > 10 then sch2(session_id \<mapsto> last_n 10 evs) else sch2)"

subsection \<open>The verdict\<close>

record indicators =
  ind_keywords :: keyword_analysis
  ind_patterns :: pattern_analysis
  ind_context :: context_analysis

text \<open>
  The verdict is a dict; the normal verdict and the fallback verdict have different
  keys, an absent key is \<open>None\<close>.
\<close>

record safety_analysis =
  crisis_level :: int
  crisis_type :: string
  urgency :: string
  indicators :: "indicators option"
  recommendations :: "ustr list option"
  error :: "string option"
  requires_intervention :: bool
  requires_escalation :: bool

text \<open>\<^verbatim>\<open>_log_crisis_event\<close>: builds the record and hands it to the database manager.\<close>

definition crisis_data_of :: "nat \<Rightarrow> string \<Rightarrow> ustr \<Rightarrow> safety_analysis \<Rightarrow> crisis_data" where
  "crisis_data_of now session_id user_message sa =
     \<lparr>cd_session_id = session_id, cd_timestamp = now,
      cd_crisis_level = crisis_level sa, cd_crisis_type = crisis_type sa,
      cd_user_message = user_message, cd_intervention_response = [],
      cd_escalated = requires_escalation sa,
      cd_follow_up_needed = requires_intervention sa\<rparr>"

text \<open>The dict returned by the \<^verbatim>\<open>except\<close> branch of \<^verbatim>\<open>analyze_safety\<close>.\<close>

definition fallback_analysis :: "py_error \<Rightarrow> safety_analysis" where
  "fallback_analysis e =
     \<lparr>crisis_level = 8, crisis_type = ''unknown'', urgency = ''high'',
      indicators = None, recommendations = None, error = Some (str_of_error e),
      requires_intervention = True, requires_escalation = False\<rparr>"

text \<open>
  The body of the \<^verbatim>\<open>try\<close> block of \<^verbatim>\<open>analyze_safety\<close>. It yields the exception
  raised or the verdict built, together with the tracking state it leaves behind and the
  records it handed to the crisis log: what was written before an exception stays written.
\<close>

definition analyze_safety_try ::
  "world \<Rightarrow> session_crisis_history \<Rightarrow> py_value \<Rightarrow> string
     \<Rightarrow> (py_error + safety_analysis) \<times> session_crisis_history \<times> crisis_data list" where
  "analyze_safety_try w sch message session_id =
     (case analyze_crisis_keywords (str_lower w) message of
        Inl e \<Rightarrow> (Inl e, sch, [])
      | Inr keyword_analysis \<Rightarrow>
     (case analyze_crisis_patterns (str_lower w) message of
        Inl e \<Rightarrow> (Inl e, sch, [])
      | Inr pattern_analysis \<Rightarrow>
          let context_analysis = analyze_session_context w sch session_id;
              crisis_lvl = calculate_crisis_level keyword_analysis pattern_analysis context_analysis;
              crisis_typ = determine_crisis_type keyword_analysis pattern_analysis;
              urg = assess_urgency crisis_lvl crisis_typ context_analysis;
              sch' = update_session_crisis_tracking (tracking_now w) sch session_id
                       crisis_lvl crisis_typ;
              sa = \<lparr>crisis_level = crisis_lvl, crisis_type = crisis_typ, urgency = urg,
                    indicators = Some \<lparr>ind_keywords = keyword_analysis,
                                        ind_patterns = pattern_analysis,
                                        ind_context = context_analysis\<rparr>,
                    recommendations = Some (get_safety_recommendations crisis_lvl urg),
                    error = None,
                    requires_intervention = (crisis_lvl \<ge> threshold_high),
                    requires_escalation = (crisis_lvl \<ge> threshold_critical)\<rparr>
          in if crisis_lvl \<ge> threshold_medium
             then (let cd = crisis_data_of (log_now w) session_id
                              (case message of PyStr s \<Rightarrow> s | PyNone \<Rightarrow> []) sa
                   in case log_crisis_event w cd of
                        Inl e \<Rightarrow> (Inl e, sch', [cd])
                      | Inr u \<Rightarrow> (Inr sa, sch', [cd]))
             else (Inr sa, sch', [])))"

text \<open>\<^verbatim>\<open>analyze_safety\<close>: every exception of the body is caught.\<close>

definition analyze_safety ::
  "world \<Rightarrow> session_crisis_history \<Rightarrow> py_value \<Rightarrow> string
     \<Rightarrow> safety_analysis \<times> session_crisis_history \<times> crisis_data list" where
  "analyze_safety w sch message session_id =
     (case analyze_safety_try w sch message session_id of
        (Inl e, sch', logged) \<Rightarrow> (fallback_analysis e, sch', logged)
      | (Inr sa, sch', logged) \<Rightarrow> (sa, sch', logged))"

text \<open>A run of the service: one call after the other on the tracking state.\<close>

fun analyze_all ::
  "session_crisis_history \<Rightarrow> (world \<times> py_value \<times> string) list \<Rightarrow> session_crisis_history" where
  "analyze_all sch [] = sch"
| "analyze_all sch ((w, message, session_id) # calls) =
     analyze_all (fst (snd (analyze_safety w sch message session_id))) calls"

subsection \<open>The escalation check\<close>

record escalation_criteria =
  sustained_high_risk :: bool
  increasing_severity :: bool
  failed_interventions :: bool
  immediate_danger :: bool

record escalation_assessment =
  escalation_needed :: bool
  criteria_met :: escalation_criteria
  recommended_action :: ustr
  esc_urgency :: string

text \<open>\<^verbatim>\<open>_get_escalation_recommendation\<close>.\<close>

definition get_escalation_recommendation :: "escalation_criteria \<Rightarrow> ustr" where
  "get_escalation_recommendation criteria =
     (if immediate_danger criteria then esc_immediate
      else if sustained_high_risk criteria then esc_sustained
      else if increasing_severity criteria then esc_increasing
      else if failed_interventions criteria then esc_failed
      else esc_none)"

text \<open>
  \<^verbatim>\<open>check_escalation_needed\<close>. With at least three entries the slice
  \<^verbatim>\<open>session_history[-3:]\<close> has three elements, so \<^verbatim>\<open>recent_levels[-1]\<close> and
  \<^verbatim>\<open>recent_levels[0]\<close> are its last and its first.
\<close>

definition check_escalation_needed ::
  "session_crisis_history \<Rightarrow> string \<Rightarrow> int \<Rightarrow> escalation_assessment" where
  "check_escalation_needed sch session_id current_crisis_level =
     (let session_history = events_of sch session_id;
          recent_high_risk =
            filter (\<lambda>event. ev_crisis_level event \<ge> threshold_high) (last_n 5 session_history);
          sustained = (length recent_high_risk \<ge> 3);
          increasing =
            (if length session_history \<ge> 3
             then (let recent_levels = map ev_crisis_level (last_n 3 session_history)
                   in last recent_levels > hd recent_levels \<and> sum_list recent_levels > 18)
             else False);
          immediate = (current_crisis_level \<ge> 9);
          failed = (length session_history > 2);
          escalation_criteria =
            \<lparr>sustained_high_risk = sustained, increasing_severity = increasing,
             failed_interventions = failed, immediate_danger = immediate\<rparr>;
          needed = (immediate \<or> (sustained \<and> increasing) \<or> (failed \<and> current_crisis_level \<ge> 7))
      in \<lparr>escalation_needed = needed,
          criteria_met = escalation_criteria,
          recommended_action = get_escalation_recommendation escalation_criteria,
          esc_urgency = (if immediate then ''immediate'' else ''urgent'')\<rparr>)"

subsection \<open>Auxiliary notions\<close>

text \<open>
  The verdict that the body of \<^verbatim>\<open>analyze_safety\<close> builds for a message that is a
  string, before the crisis log is written.
\<close>

definition normal_analysis ::
  "world \<Rightarrow> session_crisis_history \<Rightarrow> ustr \<Rightarrow> string \<Rightarrow> safety_analysis" where
  "normal_analysis w sch s session_id =
     (let ka = keyword_analysis_of (str_lower w s);
          pa = pattern_analysis_of (str_lower w s);
          ctx = analyze_session_context w sch session_id;
          lvl = calculate_crisis_level ka pa ctx;
          typ = determine_crisis_type ka pa;
          urg = assess_urgency lvl typ ctx
      in \<lparr>crisis_level = lvl, crisis_type = typ, urgency = urg,
          indicators = Some \<lparr>ind_keywords = ka, ind_patterns = pa, ind_context = ctx\<rparr>,
          recommendations = Some (get_safety_recommendations lvl urg),
          error = None,
          requires_intervention = (lvl \<ge> threshold_high),
          requires_escalation = (lvl \<ge> threshold_critical)\<rparr>)"

text \<open>The entry that the keyword matcher stores for a category with at least one match.\<close>

definition match_of :: "ustr \<Rightarrow> string \<times> ustr list \<Rightarrow> string \<times> keyword_match" where
  "match_of ml = (\<lambda>(c, ks). (c, \<lparr>km_matches = filter (\<lambda>k. py_in k ml) ks, km_count = count_in ks ml,
                  km_severity = of_nat (count_in ks ml) * category_weight c\<rparr>))"

text \<open>Example inputs: three Arabic messages, and collaborators that do not fail.\<close>

definition msg_suicide :: ustr where
  "msg_suicide = [0x627, 0x646, 0x62A, 0x62D, 0x627, 0x631]"

definition msg_critical :: ustr where
  "msg_critical =
     [0x627, 0x646, 0x62A, 0x62D, 0x627, 0x631, 0x20, 0x623, 0x642, 0x62A, 0x644, 0x20,
      0x646, 0x641, 0x633, 0x64A, 0x20, 0x623, 0x624, 0x630, 0x64A, 0x20, 0x646, 0x641,
      0x633, 0x64A]"

definition msg_impossible :: ustr where
  "msg_impossible = [0x645, 0x633, 0x62A, 0x62D, 0x64A, 0x644]"

text \<open>
  On these messages \<^verbatim>\<open>str.lower\<close> is the identity (Arabic letters have no case). The
  session has no conversation history and the crisis log accepts every record.
\<close>

definition quiet_world :: world where
  "quiet_world =
     \<lparr>str_lower = (\<lambda>s. s), get_session_history = (\<lambda>session_id. Inr []),
      log_crisis_event = (\<lambda>cd. Inr ()), tracking_now = 0, log_now = 0\<rparr>"

text \<open>The bound on every tracking list, as an invariant of the tracking state.\<close>

definition bounded_tracking :: "session_crisis_history \<Rightarrow> bool" where
  "bounded_tracking sch = (\<forall>sid. length (events_of sch sid) \<le> 10)"

text \<open>A session whose tracking list is full: ten entries, stamped 1 to 10.\<close>

definition full_history :: session_crisis_history where
  "full_history =
     [''s1'' \<mapsto>
        map (\<lambda>t. \<lparr>ev_timestamp = t, ev_crisis_level = 0, ev_crisis_type = ''emotional_distress''\<rparr>)
          [1, 2, 3, 4, 5, 6, 7, 8, 9, 10]]"

text \<open>
  The criterion \<^verbatim>\<open>increasing_severity\<close> in the words of the specification: the levels
  of the last three entries strictly increasing, each above the one before, and their
  sum above 18.
\<close>

definition spec_increasing_severity :: "crisis_event list \<Rightarrow> bool" where
  "spec_increasing_severity evs =
     (length evs \<ge> 3 \<and>
      sorted_wrt (<) (map ev_crisis_level (last_n 3 evs)) \<and>
      sum_list (map ev_crisis_level (last_n 3 evs)) > 18)"

text \<open>Two sessions with three entries: levels 5, 10, 6 and levels 5, 6, 8.\<close>

definition zigzag_history :: session_crisis_history where
  "zigzag_history =
     [''s1'' \<mapsto>
        [\<lparr>ev_timestamp = 1, ev_crisis_level = 5, ev_crisis_type = ''severe_depression''\<rparr>,
         \<lparr>ev_timestamp = 2, ev_crisis_level = 10, ev_crisis_type = ''suicide_risk''\<rparr>,
         \<lparr>ev_timestamp = 3, ev_crisis_level = 6, ev_crisis_type = ''suicide_risk''\<rparr>]]"

definition rising_history :: session_crisis_history where
  "rising_history =
     [''s1'' \<mapsto>
        [\<lparr>ev_timestamp = 1, ev_crisis_level = 5, ev_crisis_type = ''severe_depression''\<rparr>,
         \<lparr>ev_timestamp = 2, ev_crisis_level = 6, ev_crisis_type = ''suicide_risk''\<rparr>,
         \<lparr>ev_timestamp = 3, ev_crisis_level = 8, ev_crisis_type = ''suicide_risk''\<rparr>]]"

text \<open>
  The context bonus and the aggregation formula in the words of the specification:
  the weighted sum is rounded to the nearest integer, then clamped. (At the example used
  below the sum is \<open>4/5\<close>, where rounding half up and rounding half to even agree.)
\<close>

definition context_bonus :: "keyword_analysis \<Rightarrow> context_analysis \<Rightarrow> rat" where
  "context_bonus ka ctx =
     2 * of_bool (escalation_detected ctx) + 1 * of_bool (emotional_deterioration ctx) +
     1 * of_bool (previous_interventions ctx > 1) +
     3 / 2 * of_nat (length (high_risk_categories ka))"

definition spec_crisis_level ::
  "keyword_analysis \<Rightarrow> pattern_analysis \<Rightarrow> context_analysis \<Rightarrow> int" where
  "spec_crisis_level ka pa ctx =
     max 0 (min 10 (round (1 / 2 * total_severity ka + 3 / 10 * of_nat (pa_severity pa) +
                           context_bonus ka ctx)))"

text \<open>
  Every term the matchers look for: the terms of the seven categories and the phrases
  of the four pattern lists.
\<close>

definition trigger_terms :: "ustr list" where
  "trigger_terms =
     concat (map snd crisis_keywords) @
     finality_words @ goodbye_words @ extreme_words @ worthless_words"

text \<open>The same collaborators, with a crisis log that raises on every record.\<close>

definition failing_log_world :: world where
  "failing_log_world =
     quiet_world\<lparr>log_crisis_event := (\<lambda>cd. Inl (CollaboratorError ''database unavailable''))\<rparr>"

section \<open>Basic facts\<close>

lemma py_in_sublist: "py_in k s = sublist k s"
  by (induction s) (auto simp: sublist_Cons_right)

lemma length_last_n: "length (last_n n xs) = min n (length xs)"
  by (simp add: last_n_def)

text \<open>Below zero, truncation and floor differ, but not after clamping to \<open>[0, 10]\<close>.\<close>

lemma clamp_py_int: "max 0 (min 10 (py_int x)) = max 0 (min 10 \<lfloor>x\<rfloor>)"
proof (cases "0 \<le> x")
  case True
  then show ?thesis by (simp add: py_int_def)
next
  case False
  then have "x < 0" by simp
  then have "\<lceil>x\<rceil> \<le> 0" and "\<lfloor>x\<rfloor> \<le> 0"
    by linarith+
  with False show ?thesis by (simp add: py_int_def)
qed

lemma calculate_crisis_level_bounds:
  "0 \<le> calculate_crisis_level ka pa ctx" "calculate_crisis_level ka pa ctx \<le> 10"
  by (simp_all add: calculate_crisis_level_def Let_def)

subsection \<open>The two shapes of a call\<close>

lemma analyze_safety_None:
  "analyze_safety w sch PyNone sid = (fallback_analysis AttributeError, sch, [])"
  by (simp add: analyze_safety_def analyze_safety_try_def analyze_crisis_keywords_def)

lemma analyze_safety_Str:
  "analyze_safety w sch (PyStr s) sid =
     (let sa = normal_analysis w sch s sid;
          sch' = update_session_crisis_tracking (tracking_now w) sch sid
                   (crisis_level sa) (crisis_type sa);
          cd = crisis_data_of (log_now w) sid s sa
      in if crisis_level sa \<ge> threshold_medium
         then (case log_crisis_event w cd of
                 Inl e \<Rightarrow> (fallback_analysis e, sch', [cd])
               | Inr u \<Rightarrow> (sa, sch', [cd]))
         else (sa, sch', []))"
  by (simp add: analyze_safety_def analyze_safety_try_def analyze_crisis_keywords_def
      analyze_crisis_patterns_def normal_analysis_def Let_def split: sum.splits)

lemma crisis_level_normal_analysis:
  "crisis_level (normal_analysis w sch s sid) =
     calculate_crisis_level (keyword_analysis_of (str_lower w s))
       (pattern_analysis_of (str_lower w s)) (analyze_session_context w sch sid)"
  by (simp add: normal_analysis_def Let_def)

subsection \<open>The matchers in closed form\<close>

lemma scan_keywords_eq:
  "scan_keywords c ml ks (ms, sev) =
     (ms @ filter (\<lambda>k. py_in k ml) ks, sev + of_nat (count_in ks ml) * category_weight c)"
  by (induction ks arbitrary: ms sev) (simp_all add: count_in_def algebra_simps del: category_weight.simps)

lemma scan_categories_eq:
  "scan_categories ml cats (kms, tot) =
     (kms @ map (match_of ml) (filter (\<lambda>(c, ks). count_in ks ml > 0) cats),
      tot + sum_list (map (\<lambda>(c, ks). of_nat (count_in ks ml) * category_weight c) cats))"
proof (induction cats arbitrary: kms tot)
  case Nil
  then show ?case by simp
next
  case (Cons a cats)
  obtain c ks where a: "a = (c, ks)" by (cases a)
  show ?case
  proof (cases "count_in ks ml > 0")
    case True
    then have "filter (\<lambda>k. py_in k ml) ks \<noteq> []" by (auto simp: count_in_def)
    with True show ?thesis
      by (simp add: a scan_keywords_eq Cons.IH match_of_def count_in_def algebra_simps
          del: category_weight.simps)
  next
    case False
    then have "filter (\<lambda>k. py_in k ml) ks = []" by (simp add: count_in_def)
    with False show ?thesis
      by (simp add: a scan_keywords_eq Cons.IH count_in_def del: category_weight.simps)
  qed
qed

lemma category_weights:
  "category_weight ''suicide'' = 3" "category_weight ''self_harm'' = 5 / 2"
  "category_weight ''hopelessness'' = 1" "category_weight ''isolation'' = 1"
  "category_weight ''substance_abuse'' = 1" "category_weight ''violence'' = 5 / 2"
  "category_weight ''psychosis'' = 2"
  by simp_all

lemma total_severity_sum:
  "total_severity (keyword_analysis_of ml) =
     min 10 (sum_list (map (\<lambda>(c, ks). of_nat (count_in ks ml) * category_weight c) crisis_keywords))"
  by (simp add: keyword_analysis_of_def scan_categories_eq del: category_weight.simps)

lemma total_severity_eq:
  "total_severity (keyword_analysis_of ml) =
     min 10 (3 * of_nat (count_in suicide_keywords ml)
           + 5 / 2 * of_nat (count_in self_harm_keywords ml)
           + of_nat (count_in hopelessness_keywords ml)
           + of_nat (count_in isolation_keywords ml)
           + of_nat (count_in substance_abuse_keywords ml)
           + 5 / 2 * of_nat (count_in violence_keywords ml)
           + 2 * of_nat (count_in psychosis_keywords ml))"
  unfolding total_severity_sum crisis_keywords_def
  by (simp add: category_weights del: category_weight.simps)

lemma matched_categories_eq:
  "map fst (ka_matches (keyword_analysis_of ml)) =
     map fst (filter (\<lambda>(c, ks). count_in ks ml > 0) crisis_keywords)"
  by (simp add: keyword_analysis_of_def scan_categories_eq match_of_def comp_def case_prod_unfold)

lemma filter_match_of:
  "map fst (filter (\<lambda>(cat, data). cat \<in> H \<and> km_count data > 0)
      (map (match_of ml) (filter (\<lambda>(c, ks). count_in ks ml > 0) cats))) =
   map fst (filter (\<lambda>(c, ks). c \<in> H \<and> count_in ks ml > 0) cats)"
  by (induction cats) (auto simp: match_of_def)

lemma high_risk_categories_filter:
  "high_risk_categories (keyword_analysis_of ml) =
     map fst (filter (\<lambda>(c, ks). c \<in> set [''suicide'', ''self_harm'', ''violence'']
                        \<and> count_in ks ml > 0) crisis_keywords)"
  by (simp add: keyword_analysis_of_def scan_categories_eq filter_match_of del: set_simps)

lemma high_risk_categories_eq:
  "high_risk_categories (keyword_analysis_of ml) =
     (if count_in suicide_keywords ml > 0 then [''suicide''] else []) @
     (if count_in self_harm_keywords ml > 0 then [''self_harm''] else []) @
     (if count_in violence_keywords ml > 0 then [''violence''] else [])"
  unfolding high_risk_categories_filter crisis_keywords_def
  by simp

lemma pa_severity_eq:
  "pa_severity (pattern_analysis_of ml) =
     min 10 (count_in finality_words ml * 3 + count_in goodbye_words ml * 3 +
             count_in extreme_words ml + count_in worthless_words ml * 2)"
  by (simp add: pattern_analysis_of_def Let_def)

lemma high_risk_patterns_eq:
  "high_risk_patterns (pattern_analysis_of ml) =
     (if count_in finality_words ml > 0 then [''finality_statements''] else []) @
     (if count_in goodbye_words ml > 0 then [''goodbye_messages''] else [])"
  by (simp add: pattern_analysis_of_def Let_def pattern_items_def)

subsection \<open>The example inputs evaluated\<close>

lemma counts_suicide:
  "count_in suicide_keywords msg_suicide = 1"
  "count_in self_harm_keywords msg_suicide = 0"
  "count_in hopelessness_keywords msg_suicide = 0"
  "count_in isolation_keywords msg_suicide = 0"
  "count_in substance_abuse_keywords msg_suicide = 0"
  "count_in violence_keywords msg_suicide = 0"
  "count_in psychosis_keywords msg_suicide = 0"
  "count_in finality_words msg_suicide = 0"
  "count_in goodbye_words msg_suicide = 0"
  "count_in extreme_words msg_suicide = 0"
  "count_in worthless_words msg_suicide = 0"
  by (simp_all add: count_in_def msg_suicide_def suicide_keywords_def self_harm_keywords_def
      hopelessness_keywords_def isolation_keywords_def substance_abuse_keywords_def
      violence_keywords_def psychosis_keywords_def finality_words_def goodbye_words_def
      extreme_words_def worthless_words_def)

lemma counts_critical:
  "count_in suicide_keywords msg_critical = 2"
  "count_in self_harm_keywords msg_critical = 1"
  "count_in hopelessness_keywords msg_critical = 0"
  "count_in isolation_keywords msg_critical = 0"
  "count_in substance_abuse_keywords msg_critical = 0"
  "count_in violence_keywords msg_critical = 2"
  "count_in psychosis_keywords msg_critical = 0"
  "count_in finality_words msg_critical = 0"
  "count_in goodbye_words msg_critical = 0"
  "count_in extreme_words msg_critical = 0"
  "count_in worthless_words msg_critical = 0"
  by (simp_all add: count_in_def msg_critical_def suicide_keywords_def self_harm_keywords_def
      hopelessness_keywords_def isolation_keywords_def substance_abuse_keywords_def
      violence_keywords_def psychosis_keywords_def finality_words_def goodbye_words_def
      extreme_words_def worthless_words_def)

lemma counts_impossible:
  "count_in suicide_keywords msg_impossible = 0"
  "count_in self_harm_keywords msg_impossible = 0"
  "count_in hopelessness_keywords msg_impossible = 1"
  "count_in isolation_keywords msg_impossible = 0"
  "count_in substance_abuse_keywords msg_impossible = 0"
  "count_in violence_keywords msg_impossible = 0"
  "count_in psychosis_keywords msg_impossible = 0"
  "count_in finality_words msg_impossible = 0"
  "count_in goodbye_words msg_impossible = 0"
  "count_in extreme_words msg_impossible = 1"
  "count_in worthless_words msg_impossible = 0"
  by (simp_all add: count_in_def msg_impossible_def suicide_keywords_def self_harm_keywords_def
      hopelessness_keywords_def isolation_keywords_def substance_abuse_keywords_def
      violence_keywords_def psychosis_keywords_def finality_words_def goodbye_words_def
      extreme_words_def worthless_words_def)

lemma quiet_world_simps:
  "str_lower quiet_world s = s" "get_session_history quiet_world sid = Inr []"
  "log_crisis_event quiet_world cd = Inr ()" "tracking_now quiet_world = 0"
  "log_now quiet_world = 0"
  by (simp_all add: quiet_world_def)

lemma context_quiet: "analyze_session_context quiet_world sch sid = initial_context"
  by (simp add: analyze_session_context_def quiet_world_simps)

lemma level_suicide:
  "calculate_crisis_level (keyword_analysis_of msg_suicide) (pattern_analysis_of msg_suicide)
     initial_context = 3"
  by (simp add: calculate_crisis_level_def Let_def total_severity_eq high_risk_categories_eq
      pa_severity_eq counts_suicide py_int_def initial_context_def floor_eq_iff)

lemma level_critical:
  "calculate_crisis_level (keyword_analysis_of msg_critical) (pattern_analysis_of msg_critical)
     initial_context = 9"
  by (simp add: calculate_crisis_level_def Let_def total_severity_eq high_risk_categories_eq
      pa_severity_eq counts_critical py_int_def initial_context_def floor_eq_iff)

lemma level_impossible:
  "calculate_crisis_level (keyword_analysis_of msg_impossible) (pattern_analysis_of msg_impossible)
     initial_context = 0"
  by (simp add: calculate_crisis_level_def Let_def total_severity_eq high_risk_categories_eq
      pa_severity_eq counts_impossible py_int_def initial_context_def floor_eq_iff)

lemma normal_level_critical:
  "crisis_level (normal_analysis quiet_world sch msg_critical sid) = 9"
  by (simp add: crisis_level_normal_analysis context_quiet quiet_world_simps level_critical)


lemma analyze_critical_quiet:
  "fst (analyze_safety quiet_world Map.empty (PyStr msg_critical) ''s1'') =
     normal_analysis quiet_world Map.empty msg_critical ''s1''"
  by (simp add: analyze_safety_Str Let_def normal_level_critical threshold_medium_def
      quiet_world_simps)

subsection \<open>The tracking state after a call\<close>

lemma events_of_update:
  "events_of (update_session_crisis_tracking now sch sid lvl typ) sid' =
     (if sid' = sid
      then last_n 10 (events_of sch sid @
             [\<lparr>ev_timestamp = now, ev_crisis_level = lvl, ev_crisis_type = typ\<rparr>])
      else events_of sch sid')"
  by (simp add: update_session_crisis_tracking_def Let_def events_of_def last_n_def)

lemma tracking_after_None:
  "fst (snd (analyze_safety w sch PyNone sid)) = sch"
  by (simp add: analyze_safety_None)

lemma tracking_after_Str:
  "fst (snd (analyze_safety w sch (PyStr s) sid)) =
     update_session_crisis_tracking (tracking_now w) sch sid
       (crisis_level (normal_analysis w sch s sid)) (crisis_type (normal_analysis w sch s sid))"
  by (simp add: analyze_safety_Str Let_def split: sum.splits)

lemma logged_after_Str:
  "snd (snd (analyze_safety w sch (PyStr s) sid)) =
     (if crisis_level (normal_analysis w sch s sid) \<ge> 5
      then [crisis_data_of (log_now w) sid s (normal_analysis w sch s sid)] else [])"
  by (simp add: analyze_safety_Str Let_def threshold_medium_def split: sum.splits)

lemma bounded_tracking_step:
  assumes "bounded_tracking sch"
  shows "bounded_tracking (fst (snd (analyze_safety w sch message sid)))"
proof (cases message)
  case PyNone
  with assms show ?thesis by (simp add: tracking_after_None)
next
  case (PyStr s)
  with assms show ?thesis
    by (simp add: tracking_after_Str bounded_tracking_def events_of_update length_last_n)
qed

lemma bounded_tracking_run:
  "bounded_tracking sch \<Longrightarrow> bounded_tracking (analyze_all sch calls)"
proof (induction calls arbitrary: sch)
  case Nil
  then show ?case by simp
next
  case (Cons c calls)
  obtain w message sid where c: "c = (w, message, sid)" by (cases c)
  from Cons.prems have "bounded_tracking (fst (snd (analyze_safety w sch message sid)))"
    by (rule bounded_tracking_step)
  then show ?case by (simp add: c Cons.IH)
qed

lemma last_n_full:
  "length xs = n \<Longrightarrow> 0 < n \<Longrightarrow> last_n n (xs @ [x]) = tl xs @ [x]"
  by (cases xs) (simp_all add: last_n_def)

subsection \<open>The empty message evaluated\<close>

lemma counts_empty:
  "count_in suicide_keywords [] = 0"
  "count_in self_harm_keywords [] = 0"
  "count_in hopelessness_keywords [] = 0"
  "count_in isolation_keywords [] = 0"
  "count_in substance_abuse_keywords [] = 0"
  "count_in violence_keywords [] = 0"
  "count_in psychosis_keywords [] = 0"
  "count_in finality_words [] = 0"
  "count_in goodbye_words [] = 0"
  "count_in extreme_words [] = 0"
  "count_in worthless_words [] = 0"
  by (simp_all add: count_in_def suicide_keywords_def self_harm_keywords_def
      hopelessness_keywords_def isolation_keywords_def substance_abuse_keywords_def
      violence_keywords_def psychosis_keywords_def finality_words_def goodbye_words_def
      extreme_words_def worthless_words_def)

lemma level_empty:
  "calculate_crisis_level (keyword_analysis_of []) (pattern_analysis_of []) initial_context = 0"
  by (simp add: calculate_crisis_level_def Let_def total_severity_eq high_risk_categories_eq
      pa_severity_eq counts_empty py_int_def initial_context_def)

lemma type_empty:
  "determine_crisis_type (keyword_analysis_of []) (pattern_analysis_of []) = ''emotional_distress''"
  by (simp add: determine_crisis_type_def Let_def matched_categories_eq high_risk_patterns_eq
      crisis_keywords_def counts_empty)

lemma normal_empty:
  "crisis_level (normal_analysis quiet_world sch [] sid) = 0"
  "crisis_type (normal_analysis quiet_world sch [] sid) = ''emotional_distress''"
  by (simp_all add: normal_analysis_def Let_def context_quiet quiet_world_simps level_empty type_empty)

subsection \<open>The last three entries\<close>

lemma list_of_three: "length ys = 3 \<Longrightarrow> ys = [ys ! 0, ys ! 1, ys ! 2]"
  by (auto simp: numeral_3_eq_3 length_Suc_conv)

lemma last_n_3:
  assumes "length xs \<ge> 3"
  shows "last_n 3 xs = [xs ! (length xs - 3), xs ! (length xs - 2), xs ! (length xs - 1)]"
proof -
  let ?d = "length xs - 3"
  have "length (drop ?d xs) = 3" using assms by simp
  then have "drop ?d xs = [drop ?d xs ! 0, drop ?d xs ! 1, drop ?d xs ! 2]"
    by (rule list_of_three)
  moreover have "?d + 1 = length xs - 2" "?d + 2 = length xs - 1" using assms by simp_all
  ultimately have "drop ?d xs = [xs ! ?d, xs ! (length xs - 2), xs ! (length xs - 1)]"
    using assms by simp
  then show ?thesis by (simp add: last_n_def)
qed

subsection \<open>The aggregation in closed form\<close>

lemma calculate_crisis_level_floor:
  "calculate_crisis_level ka pa ctx =
     max 0 (min 10 \<lfloor>1 / 2 * total_severity ka + 3 / 10 * of_nat (pa_severity pa) +
                     context_bonus ka ctx\<rfloor>)"
proof -
  have "calculate_crisis_level ka pa ctx =
     max 0 (min 10 (py_int (1 / 2 * total_severity ka + 3 / 10 * of_nat (pa_severity pa) +
                     context_bonus ka ctx)))"
    by (simp add: calculate_crisis_level_def Let_def context_bonus_def algebra_simps)
  then show ?thesis by (simp only: clamp_py_int)
qed

subsection \<open>Monotonicity of the matchers\<close>

lemma count_in_mono:
  assumes "\<forall>k \<in> set ws. py_in k ml \<longrightarrow> py_in k ml'"
  shows "count_in ws ml \<le> count_in ws ml'"
  using assms by (induction ws) (auto simp: count_in_def)

lemma count_in_pos: "k \<in> set ws \<Longrightarrow> py_in k ml \<Longrightarrow> 0 < count_in ws ml"
  by (induction ws) (auto simp: count_in_def)

lemma of_nat_count_mono:
  "count_in ws ml \<le> count_in ws ml' \<Longrightarrow> (of_nat (count_in ws ml) :: rat) \<le> of_nat (count_in ws ml')"
  by simp

lemma trigger_terms_tables:
  "set suicide_keywords \<subseteq> set trigger_terms" "set self_harm_keywords \<subseteq> set trigger_terms"
  "set hopelessness_keywords \<subseteq> set trigger_terms" "set isolation_keywords \<subseteq> set trigger_terms"
  "set substance_abuse_keywords \<subseteq> set trigger_terms" "set violence_keywords \<subseteq> set trigger_terms"
  "set psychosis_keywords \<subseteq> set trigger_terms" "set finality_words \<subseteq> set trigger_terms"
  "set goodbye_words \<subseteq> set trigger_terms" "set extreme_words \<subseteq> set trigger_terms"
  "set worthless_words \<subseteq> set trigger_terms"
  unfolding trigger_terms_def crisis_keywords_def by auto

lemma aggregation_monotone_aux:
  assumes m: "\<And>ws. set ws \<subseteq> set trigger_terms \<Longrightarrow> count_in ws ml \<le> count_in ws ml'"
  shows "calculate_crisis_level (keyword_analysis_of ml) (pattern_analysis_of ml) ctx
           \<le> calculate_crisis_level (keyword_analysis_of ml') (pattern_analysis_of ml') ctx"
proof -
  note c = trigger_terms_tables [THEN m]
  have ts: "total_severity (keyword_analysis_of ml) \<le> total_severity (keyword_analysis_of ml')"
    unfolding total_severity_eq
    by (intro min.mono order_refl add_mono mult_left_mono of_nat_count_mono c) simp_all
  have ps: "pa_severity (pattern_analysis_of ml) \<le> pa_severity (pattern_analysis_of ml')"
    unfolding pa_severity_eq
    by (intro min.mono order_refl add_mono mult_right_mono c) simp_all
  have hr: "length (high_risk_categories (keyword_analysis_of ml))
              \<le> length (high_risk_categories (keyword_analysis_of ml'))"
    using c(1) c(2) c(6) unfolding high_risk_categories_eq by auto
  have cb: "context_bonus (keyword_analysis_of ml) ctx \<le> context_bonus (keyword_analysis_of ml') ctx"
    unfolding context_bonus_def using hr by simp
  have "1 / 2 * total_severity (keyword_analysis_of ml) +
          3 / 10 * of_nat (pa_severity (pattern_analysis_of ml)) +
          context_bonus (keyword_analysis_of ml) ctx
        \<le> 1 / 2 * total_severity (keyword_analysis_of ml') +
          3 / 10 * of_nat (pa_severity (pattern_analysis_of ml')) +
          context_bonus (keyword_analysis_of ml') ctx"
    using ts ps cb by (intro add_mono mult_left_mono) simp_all
  then show ?thesis
    unfolding calculate_crisis_level_floor
    by (intro max.mono min.mono order_refl floor_mono)
qed

lemma py_in_trans: "py_in k a \<Longrightarrow> py_in a b \<Longrightarrow> py_in k b"
  unfolding py_in_sublist by (rule sublist_order.order_trans)

lemma suicide_in_critical: "py_in msg_suicide msg_critical"
  by (simp add: msg_suicide_def msg_critical_def)

subsection \<open>A message with a suicide term\<close>

lemma context_no_history:
  "get_session_history w sid = Inr [] \<Longrightarrow> analyze_session_context w sch sid = initial_context"
  by (simp add: analyze_session_context_def)

lemma type_suicide:
  assumes "0 < count_in suicide_keywords ml"
  shows "determine_crisis_type (keyword_analysis_of ml) pa = ''suicide_risk''"
proof -
  have "''suicide'' \<in> set (map fst (ka_matches (keyword_analysis_of ml)))"
    unfolding matched_categories_eq crisis_keywords_def using assms by simp
  then show ?thesis by (simp add: determine_crisis_type_def Let_def)
qed

lemma level_suicide_ge:
  assumes "0 < count_in suicide_keywords ml"
  shows "3 \<le> calculate_crisis_level (keyword_analysis_of ml) (pattern_analysis_of ml) ctx"
proof -
  from assms have "(1 :: rat) \<le> of_nat (count_in suicide_keywords ml)" by simp
  then have "3 \<le> total_severity (keyword_analysis_of ml)"
    unfolding total_severity_eq by simp
  moreover have "1 \<le> length (high_risk_categories (keyword_analysis_of ml))"
    unfolding high_risk_categories_eq using assms by simp
  then have "(1 :: rat) \<le> of_nat (length (high_risk_categories (keyword_analysis_of ml)))"
    by simp
  then have "3 / 2 \<le> context_bonus (keyword_analysis_of ml) ctx"
    unfolding context_bonus_def by simp
  moreover have "(0 :: rat) \<le> 3 / 10 * of_nat (pa_severity (pattern_analysis_of ml))" by simp
  ultimately have "3 \<le> 1 / 2 * total_severity (keyword_analysis_of ml) +
      3 / 10 * of_nat (pa_severity (pattern_analysis_of ml)) +
      context_bonus (keyword_analysis_of ml) ctx"
    by linarith
  then have "3 \<le> \<lfloor>1 / 2 * total_severity (keyword_analysis_of ml) +
      3 / 10 * of_nat (pa_severity (pattern_analysis_of ml)) +
      context_bonus (keyword_analysis_of ml) ctx\<rfloor>"
    by (simp add: le_floor_iff)
  then show ?thesis unfolding calculate_crisis_level_floor by simp
qed

lemma urgency_suicide:
  assumes "3 \<le> lvl" "\<not> escalation_detected ctx"
  shows "assess_urgency lvl ''suicide_risk'' ctx =
     (if 7 \<le> lvl then ''immediate'' else if 5 \<le> lvl then ''urgent'' else ''low'')"
  using assms by (simp add: assess_urgency_def)

lemma suicide_term: "msg_suicide \<in> set suicide_keywords"
  by (simp add: msg_suicide_def suicide_keywords_def)

lemma verdict_quiet_log:
  "\<forall>cd. log_crisis_event w cd = Inr () \<Longrightarrow>
     fst (analyze_safety w sch (PyStr s) sid) = normal_analysis w sch s sid"
  by (simp add: analyze_safety_Str Let_def)

lemma failing_log_world_simps:
  "str_lower failing_log_world s = s" "get_session_history failing_log_world sid = Inr []"
  "log_crisis_event failing_log_world cd = Inl (CollaboratorError ''database unavailable'')"
  by (simp_all add: failing_log_world_def quiet_world_def)

lemma try_failing_log:
  "fst (analyze_safety_try failing_log_world Map.empty (PyStr msg_critical) ''s1'') =
     Inl (CollaboratorError ''database unavailable'')"
proof -
  have "analyze_session_context failing_log_world Map.empty ''s1'' = initial_context"
    by (rule context_no_history) (simp add: failing_log_world_simps)
  then show ?thesis
    by (simp add: analyze_safety_try_def analyze_crisis_keywords_def analyze_crisis_patterns_def
        Let_def failing_log_world_simps level_critical threshold_medium_def)
qed

subsection \<open>The outcome of the body\<close>





lemma last_n_room: "length xs < n \<Longrightarrow> last_n n (xs @ [x]) = xs @ [x]"
  by (simp add: last_n_def)

subsection \<open>The scores that the matchers produce\<close>

text \<open>
  The category severity is a multiple of \<open>1/2\<close> between 0 and 10, the pattern severity
  a natural number up to 10.
\<close>

lemma matcher_scores_grid:
  "\<exists>n :: nat. n \<le> 20 \<and> total_severity (keyword_analysis_of ml) = of_nat n / 2"
  "pa_severity (pattern_analysis_of ml) \<le> 10"
proof -
  let ?m = "6 * count_in suicide_keywords ml + 5 * count_in self_harm_keywords ml +
            2 * count_in hopelessness_keywords ml + 2 * count_in isolation_keywords ml +
            2 * count_in substance_abuse_keywords ml + 5 * count_in violence_keywords ml +
            4 * count_in psychosis_keywords ml"
  have "total_severity (keyword_analysis_of ml) = of_nat (min 20 ?m) / 2"
    unfolding total_severity_eq by (simp add: min_def field_simps)
  moreover have "min 20 ?m \<le> 20" by simp
  ultimately show "\<exists>n :: nat. n \<le> 20 \<and> total_severity (keyword_analysis_of ml) = of_nat n / 2"
    by blast
  show "pa_severity (pattern_analysis_of ml) \<le> 10"
    unfolding pa_severity_eq by simp
qed

section \<open>Properties of the safety service\<close>




text \<open>
  C2. \<^verbatim>\<open>analyze_safety\<close> returns a verdict on every input (it is a total function: the
  \<^verbatim>\<open>except\<close> branch catches every exception of the body). When the keyword matcher
  or the pattern detector raises, and more generally when any step of the body raises,
  the verdict is the fixed fallback: crisis level 8, crisis type \<^verbatim>\<open>unknown\<close>, urgency
  \<^verbatim>\<open>high\<close>, intervention required.
\<close>

theorem exception_yields_fallback:
  "(analyze_crisis_keywords (str_lower w) message = Inl e \<longrightarrow>
      analyze_safety w sch message session_id = (fallback_analysis e, sch, [])) \<and>
   (analyze_crisis_patterns (str_lower w) message = Inl e \<longrightarrow>
      analyze_safety w sch message session_id = (fallback_analysis e, sch, [])) \<and>
   (fst (analyze_safety_try w sch message session_id) = Inl e \<longrightarrow>
      fst (analyze_safety w sch message session_id) = fallback_analysis e) \<and>
   crisis_level (fallback_analysis e) = 8 \<and>
   crisis_type (fallback_analysis e) = ''unknown'' \<and>
   urgency (fallback_analysis e) = ''high'' \<and>
   requires_intervention (fallback_analysis e)"
proof -
  have "analyze_safety w sch message session_id = (fallback_analysis e, sch, [])"
    if "analyze_crisis_keywords (str_lower w) message = Inl e
        \<or> analyze_crisis_patterns (str_lower w) message = Inl e"
  proof (cases message)
    case PyNone
    with that have "e = AttributeError"
      by (auto simp: analyze_crisis_keywords_def analyze_crisis_patterns_def)
    with PyNone show ?thesis by (simp add: analyze_safety_None)
  next
    case (PyStr s)
    with that show ?thesis
      by (simp add: analyze_crisis_keywords_def analyze_crisis_patterns_def)
  qed
  moreover have "fst (analyze_safety w sch message session_id) = fallback_analysis e"
    if "fst (analyze_safety_try w sch message session_id) = Inl e"
    using that by (cases "analyze_safety_try w sch message session_id") (simp add: analyze_safety_def)
  ultimately show ?thesis by (simp add: fallback_analysis_def)
qed

text \<open>
  A message that is \<^verbatim>\<open>None\<close> makes the matchers raise; a crisis log that is down
  raises at the end of the body, for a message of level 9.
\<close>

theorem exception_yields_fallback_witness:
  "analyze_crisis_keywords (str_lower quiet_world) PyNone = Inl AttributeError \<and>
   analyze_crisis_patterns (str_lower quiet_world) PyNone = Inl AttributeError \<and>
   analyze_safety quiet_world Map.empty PyNone ''s1'' =
     (fallback_analysis AttributeError, Map.empty, []) \<and>
   crisis_level (fst (analyze_safety quiet_world Map.empty PyNone ''s1'')) = 8 \<and>
   crisis_type (fst (analyze_safety quiet_world Map.empty PyNone ''s1'')) = ''unknown'' \<and>
   urgency (fst (analyze_safety quiet_world Map.empty PyNone ''s1'')) = ''high'' \<and>
   requires_intervention (fst (analyze_safety quiet_world Map.empty PyNone ''s1'')) \<and>
   fst (analyze_safety_try failing_log_world Map.empty (PyStr msg_critical) ''s1'') =
     Inl (CollaboratorError ''database unavailable'') \<and>
   fst (analyze_safety failing_log_world Map.empty (PyStr msg_critical) ''s1'') =
     fallback_analysis (CollaboratorError ''database unavailable'')"
proof -
  have k: "analyze_crisis_keywords (str_lower quiet_world) PyNone = Inl AttributeError"
    by (simp add: analyze_crisis_keywords_def)
  have p: "analyze_crisis_patterns (str_lower quiet_world) PyNone = Inl AttributeError"
    by (simp add: analyze_crisis_patterns_def)
  from k p try_failing_log
    exception_yields_fallback [of quiet_world PyNone AttributeError Map.empty "''s1''"]
    exception_yields_fallback [of failing_log_world "PyStr msg_critical"
      "CollaboratorError ''database unavailable''" Map.empty "''s1''"]
  show ?thesis by simp
qed

text \<open>
  C3. After every call of \<^verbatim>\<open>analyze_safety\<close>, for any message (a string or not), any
  session state and any behaviour of the collaborators, the crisis level of the returned
  verdict is an integer between 0 and 10 inclusive, on the normal path and on the
  fallback path alike.
\<close>

theorem crisis_level_in_range:
  "0 \<le> crisis_level (fst (analyze_safety w sch message session_id)) \<and>
   crisis_level (fst (analyze_safety w sch message session_id)) \<le> 10"
proof (cases message)
  case PyNone
  then show ?thesis by (simp add: analyze_safety_None fallback_analysis_def)
next
  case (PyStr s)
  then show ?thesis
    by (simp add: analyze_safety_Str Let_def crisis_level_normal_analysis
        calculate_crisis_level_bounds fallback_analysis_def split: sum.splits)
qed

text \<open>
  C10. For every session state and every current crisis level, the urgency of the
  assessment returned by \<^verbatim>\<open>check_escalation_needed\<close> is \<^verbatim>\<open>immediate\<close> when the level
  is at least 9 and \<^verbatim>\<open>urgent\<close> otherwise, whatever the criteria say; it is never
  \<^verbatim>\<open>none\<close>, \<^verbatim>\<open>low\<close> or \<^verbatim>\<open>moderate\<close>.
\<close>

theorem assessment_urgency:
  "esc_urgency (check_escalation_needed sch session_id current_crisis_level) =
     (if current_crisis_level \<ge> 9 then ''immediate'' else ''urgent'') \<and>
   esc_urgency (check_escalation_needed sch session_id current_crisis_level)
     \<notin> set [''none'', ''low'', ''moderate'']"
  by (simp add: check_escalation_needed_def Let_def)

text \<open>
  C9. Starting from the empty tracking state of a new service, after any sequence of
  calls of \<^verbatim>\<open>analyze_safety\<close>, for any sessions, messages and collaborators, the
  tracking list of every session has at most ten entries. A call with a string message
  leaves the last ten of the old entries followed by the new one; on a full list this
  drops the oldest entry and keeps the order of the others.
\<close>

theorem tracking_list_bounded:
  "length (events_of (analyze_all Map.empty calls) session_id) \<le> 10 \<and>
   events_of (fst (snd (analyze_safety w sch (PyStr s) session_id))) session_id =
     last_n 10 (events_of sch session_id @
        [\<lparr>ev_timestamp = tracking_now w,
          ev_crisis_level = crisis_level (normal_analysis w sch s session_id),
          ev_crisis_type = crisis_type (normal_analysis w sch s session_id)\<rparr>]) \<and>
   (length (events_of sch session_id) = 10 \<longrightarrow>
      events_of (fst (snd (analyze_safety w sch (PyStr s) session_id))) session_id =
        tl (events_of sch session_id) @
        [\<lparr>ev_timestamp = tracking_now w,
          ev_crisis_level = crisis_level (normal_analysis w sch s session_id),
          ev_crisis_type = crisis_type (normal_analysis w sch s session_id)\<rparr>])"
proof -
  have "bounded_tracking Map.empty" by (simp add: bounded_tracking_def events_of_def)
  then have "bounded_tracking (analyze_all Map.empty calls)" by (rule bounded_tracking_run)
  then have "length (events_of (analyze_all Map.empty calls) session_id) \<le> 10"
    by (simp add: bounded_tracking_def)
  then show ?thesis
    by (simp add: tracking_after_Str events_of_update last_n_full)
qed

text \<open>A call on the full list of \<open>full_history\<close>: entry 1 is gone, the new entry is last.\<close>

theorem tracking_list_bounded_witness:
  "length (events_of (analyze_all Map.empty [(quiet_world, PyStr [], ''s1'')]) ''s1'') \<le> 10 \<and>
   length (events_of full_history ''s1'') = 10 \<and>
   events_of (fst (snd (analyze_safety quiet_world full_history (PyStr []) ''s1''))) ''s1'' =
     map (\<lambda>t. \<lparr>ev_timestamp = t, ev_crisis_level = 0, ev_crisis_type = ''emotional_distress''\<rparr>)
       [2, 3, 4, 5, 6, 7, 8, 9, 10, 0]"
proof -
  have l: "length (events_of full_history ''s1'') = 10"
    by (simp add: full_history_def events_of_def)
  from l tracking_list_bounded
    [of "[(quiet_world, PyStr [], ''s1'')]" "''s1''" quiet_world full_history "[]"]
  show ?thesis
    by (simp add: normal_empty quiet_world_simps) (simp add: full_history_def events_of_def last_n_def)
qed

text \<open>
  C4, as stated, fails: the tracking list of the session receives an entry on every
  analysis. The empty message has crisis level 0 and its analysis turns the empty
  tracking list of a fresh session into a list of one entry.
\<close>

theorem low_level_still_tracked_counterexample:
  "crisis_level (fst (analyze_safety quiet_world Map.empty (PyStr []) ''s1'')) = 0 \<and>
   events_of Map.empty ''s1'' = [] \<and>
   events_of (fst (snd (analyze_safety quiet_world Map.empty (PyStr []) ''s1''))) ''s1'' =
     [\<lparr>ev_timestamp = 0, ev_crisis_level = 0, ev_crisis_type = ''emotional_distress''\<rparr>]"
  by (simp add: analyze_safety_Str Let_def normal_empty threshold_medium_def events_of_update
      quiet_world_simps)
     (simp add: events_of_def last_n_def)

text \<open>
  C4, amended. Every analysis of a string message appends one entry to the tracking
  list of the session, with the computed level and type, whatever the level: the new
  list is the old one followed by the entry, cut to its last ten entries, and the lists
  of the other sessions stay as they are. What depends on the medium threshold is the
  crisis log: a record is handed to \<^verbatim>\<open>db_manager.log_crisis_event\<close> exactly when the
  computed level is at least 5, and a verdict with a level below 5 comes with no record
  logged.
\<close>

theorem tracking_unconditional_log_gated:
  "events_of (fst (snd (analyze_safety w sch (PyStr s) session_id))) session_id =
     last_n 10 (events_of sch session_id @
       [\<lparr>ev_timestamp = tracking_now w,
         ev_crisis_level = crisis_level (normal_analysis w sch s session_id),
         ev_crisis_type = crisis_type (normal_analysis w sch s session_id)\<rparr>]) \<and>
   (length (events_of sch session_id) < 10 \<longrightarrow>
      events_of (fst (snd (analyze_safety w sch (PyStr s) session_id))) session_id =
        events_of sch session_id @
          [\<lparr>ev_timestamp = tracking_now w,
            ev_crisis_level = crisis_level (normal_analysis w sch s session_id),
            ev_crisis_type = crisis_type (normal_analysis w sch s session_id)\<rparr>]) \<and>
   (other_id \<noteq> session_id \<longrightarrow>
      events_of (fst (snd (analyze_safety w sch (PyStr s) session_id))) other_id =
        events_of sch other_id) \<and>
   crisis_level (normal_analysis w sch s session_id) =
     calculate_crisis_level (keyword_analysis_of (str_lower w s))
       (pattern_analysis_of (str_lower w s)) (analyze_session_context w sch session_id) \<and>
   snd (snd (analyze_safety w sch (PyStr s) session_id)) =
     (if crisis_level (normal_analysis w sch s session_id) \<ge> 5
      then [crisis_data_of (log_now w) session_id s (normal_analysis w sch s session_id)]
      else []) \<and>
   (crisis_level (fst (analyze_safety w sch (PyStr s) session_id)) < 5 \<longrightarrow>
      snd (snd (analyze_safety w sch (PyStr s) session_id)) = [])"
proof -
  have "crisis_level (fst (analyze_safety w sch (PyStr s) session_id)) < 5 \<longrightarrow>
      snd (snd (analyze_safety w sch (PyStr s) session_id)) = []"
    by (simp add: analyze_safety_Str Let_def threshold_medium_def fallback_analysis_def
        split: sum.splits)
  then show ?thesis
    by (simp add: tracking_after_Str events_of_update last_n_room logged_after_Str
        crisis_level_normal_analysis)
qed

text \<open>
  A session with three entries, of levels 5, 6 and 8: the empty message (level 0) adds
  a fourth entry and logs nothing, \<open>msg_critical\<close> (level 9) adds a fourth entry and
  logs one record; another session is not touched.
\<close>

theorem tracking_unconditional_log_gated_witness:
  "map ev_crisis_level (events_of rising_history ''s1'') = [5, 6, 8] \<and>
   map ev_crisis_level
     (events_of (fst (snd (analyze_safety quiet_world rising_history (PyStr []) ''s1''))) ''s1'') =
     [5, 6, 8, 0] \<and>
   crisis_level (fst (analyze_safety quiet_world rising_history (PyStr []) ''s1'')) = 0 \<and>
   snd (snd (analyze_safety quiet_world rising_history (PyStr []) ''s1'')) = [] \<and>
   events_of (fst (snd (analyze_safety quiet_world rising_history (PyStr []) ''s1''))) ''s2'' = [] \<and>
   map ev_crisis_level
     (events_of (fst (snd (analyze_safety quiet_world rising_history (PyStr msg_critical) ''s1'')))
        ''s1'') = [5, 6, 8, 9] \<and>
   map cd_crisis_level
     (snd (snd (analyze_safety quiet_world rising_history (PyStr msg_critical) ''s1''))) = [9]"
proof -
  have r: "events_of rising_history ''s1'' =
     [\<lparr>ev_timestamp = 1, ev_crisis_level = 5, ev_crisis_type = ''severe_depression''\<rparr>,
      \<lparr>ev_timestamp = 2, ev_crisis_level = 6, ev_crisis_type = ''suicide_risk''\<rparr>,
      \<lparr>ev_timestamp = 3, ev_crisis_level = 8, ev_crisis_type = ''suicide_risk''\<rparr>]"
    "events_of rising_history ''s2'' = []"
    by (simp_all add: rising_history_def events_of_def)
  have len: "length (events_of rising_history ''s1'') < 10" by (simp add: r)
  have l: "crisis_level (fst (analyze_safety quiet_world rising_history (PyStr []) ''s1'')) < 5"
    by (simp add: verdict_quiet_log quiet_world_simps normal_empty)
  note t0 = tracking_unconditional_log_gated [of quiet_world rising_history "[]" "''s1''" "''s2''"]
  note t9 =
    tracking_unconditional_log_gated [of quiet_world rising_history msg_critical "''s1''" "''s2''"]
  from t0 len have e0:
    "events_of (fst (snd (analyze_safety quiet_world rising_history (PyStr []) ''s1''))) ''s1'' =
       events_of rising_history ''s1'' @
         [\<lparr>ev_timestamp = tracking_now quiet_world,
           ev_crisis_level = crisis_level (normal_analysis quiet_world rising_history [] ''s1''),
           ev_crisis_type = crisis_type (normal_analysis quiet_world rising_history [] ''s1'')\<rparr>]"
    by blast
  from t0 l have g0: "snd (snd (analyze_safety quiet_world rising_history (PyStr []) ''s1'')) = []"
    by blast
  from t0 have o0:
    "events_of (fst (snd (analyze_safety quiet_world rising_history (PyStr []) ''s1''))) ''s2'' =
       events_of rising_history ''s2''"
    by simp
  from t9 len have e9:
    "events_of (fst (snd (analyze_safety quiet_world rising_history (PyStr msg_critical) ''s1'')))
        ''s1'' =
       events_of rising_history ''s1'' @
         [\<lparr>ev_timestamp = tracking_now quiet_world,
           ev_crisis_level =
             crisis_level (normal_analysis quiet_world rising_history msg_critical ''s1''),
           ev_crisis_type =
             crisis_type (normal_analysis quiet_world rising_history msg_critical ''s1'')\<rparr>]"
    by blast
  from t9 have g9:
    "snd (snd (analyze_safety quiet_world rising_history (PyStr msg_critical) ''s1'')) =
       [crisis_data_of (log_now quiet_world) ''s1'' msg_critical
          (normal_analysis quiet_world rising_history msg_critical ''s1'')]"
    by (simp add: normal_level_critical)
  have l0: "crisis_level (fst (analyze_safety quiet_world rising_history (PyStr []) ''s1'')) = 0"
    by (simp add: verdict_quiet_log quiet_world_simps normal_empty)
  show ?thesis
    unfolding e0 g0 o0 e9 g9 l0
    by (simp add: r normal_empty normal_level_critical crisis_data_of_def)
qed

text \<open>
  C7, as stated, fails: the source compares only the last of the three levels with the
  first. With levels 5, 10, 6 the criterion is met although the levels are not
  increasing from each entry to the next.
\<close>

theorem increasing_severity_counterexample:
  "increasing_severity (criteria_met (check_escalation_needed zigzag_history ''s1'' 6)) \<and>
   map ev_crisis_level (last_n 3 (events_of zigzag_history ''s1'')) = [5, 10, 6] \<and>
   \<not> spec_increasing_severity (events_of zigzag_history ''s1'')"
  by (simp add: check_escalation_needed_def Let_def zigzag_history_def events_of_def last_n_def
      spec_increasing_severity_def)

text \<open>
  C7, amended. The criterion \<^verbatim>\<open>increasing_severity\<close> is met exactly when the session
  has at least three entries, the level of the last entry is strictly above the level of
  the third from last, and the levels of the last three entries sum to more than 18.
\<close>

theorem increasing_severity_endpoints:
  "increasing_severity (criteria_met (check_escalation_needed sch session_id current_crisis_level)) =
     (let evs = events_of sch session_id; n = length evs in
      n \<ge> 3 \<and>
      ev_crisis_level (evs ! (n - 1)) > ev_crisis_level (evs ! (n - 3)) \<and>
      ev_crisis_level (evs ! (n - 3)) + ev_crisis_level (evs ! (n - 2)) +
        ev_crisis_level (evs ! (n - 1)) > 18)"
proof (cases "length (events_of sch session_id) \<ge> 3")
  case True
  then show ?thesis
    by (simp add: check_escalation_needed_def Let_def last_n_3 add.assoc)
next
  case False
  then show ?thesis
    by (simp add: check_escalation_needed_def Let_def)
qed

text \<open>Levels 5, 6, 8 meet the criterion; a session without entries does not.\<close>

theorem increasing_severity_endpoints_witness:
  "increasing_severity (criteria_met (check_escalation_needed rising_history ''s1'' 8)) \<and>
   \<not> increasing_severity (criteria_met (check_escalation_needed Map.empty ''s1'' 8))"
  using increasing_severity_endpoints [of rising_history "''s1''" 8]
    increasing_severity_endpoints [of Map.empty "''s1''" 8]
  by (simp add: rising_history_def events_of_def Let_def)

text \<open>
  C5, as stated, fails: the source truncates the weighted sum with \<^verbatim>\<open>int\<close>, it does
  not round it. For the message \<open>msg_impossible\<close>, with one term of the category
  \<^verbatim>\<open>hopelessness\<close> and one phrase of extreme language, the sum is
  \<open>0.5 \<times> 1 + 0.3 \<times> 1 = 0.8\<close>: the source returns level 0, the formula with rounding
  gives 1.
\<close>

theorem rounding_counterexample:
  "calculate_crisis_level (keyword_analysis_of msg_impossible) (pattern_analysis_of msg_impossible)
     initial_context = 0 \<and>
   1 / 2 * total_severity (keyword_analysis_of msg_impossible) +
     3 / 10 * of_nat (pa_severity (pattern_analysis_of msg_impossible)) +
     context_bonus (keyword_analysis_of msg_impossible) initial_context = 4 / 5 \<and>
   spec_crisis_level (keyword_analysis_of msg_impossible) (pattern_analysis_of msg_impossible)
     initial_context = 1"
proof -
  have t: "1 / 2 * total_severity (keyword_analysis_of msg_impossible) +
     3 / 10 * of_nat (pa_severity (pattern_analysis_of msg_impossible)) +
     context_bonus (keyword_analysis_of msg_impossible) initial_context = 4 / 5"
    by (simp add: total_severity_eq pa_severity_eq high_risk_categories_eq context_bonus_def
        counts_impossible initial_context_def)
  have r: "round (4 / 5 :: rat) = 1" by (simp add: round_def floor_eq_iff)
  have "spec_crisis_level (keyword_analysis_of msg_impossible)
          (pattern_analysis_of msg_impossible) initial_context = max 0 (min 10 (round (4 / 5 :: rat)))"
    unfolding spec_crisis_level_def t by (rule refl)
  then have "spec_crisis_level (keyword_analysis_of msg_impossible)
          (pattern_analysis_of msg_impossible) initial_context = 1"
    by (simp only: r)
  with t level_impossible show ?thesis by (intro conjI)
qed

text \<open>
  C5, amended. For every message and session context, the crisis level aggregated from
  the outputs of the two matchers on the lower-cased message is the weighted sum
  \<open>0.5 \<times> category severity + 0.3 \<times> pattern severity + context bonus\<close>, truncated to an
  integer (rounded down, the sum being non-negative) and then clamped to \<open>[0, 10]\<close>; the
  context bonus is 2 if escalation was detected, plus 1 on emotional deterioration, plus 1
  if there is more than one previous intervention, plus 1.5 for each high-risk category
  matched. The same holds of the level of the verdict built by \<^verbatim>\<open>analyze_safety\<close>.
\<close>

theorem crisis_level_truncates:
  "calculate_crisis_level (keyword_analysis_of (lower s)) (pattern_analysis_of (lower s)) ctx =
     max 0 (min 10
       \<lfloor>1 / 2 * total_severity (keyword_analysis_of (lower s)) +
        3 / 10 * of_nat (pa_severity (pattern_analysis_of (lower s))) +
        (2 * of_bool (escalation_detected ctx) + 1 * of_bool (emotional_deterioration ctx) +
         1 * of_bool (previous_interventions ctx > 1) +
         3 / 2 * of_nat (length (high_risk_categories (keyword_analysis_of (lower s)))))\<rfloor>) \<and>
   crisis_level (normal_analysis w sch s session_id) =
     max 0 (min 10
       \<lfloor>1 / 2 * total_severity (keyword_analysis_of (str_lower w s)) +
        3 / 10 * of_nat (pa_severity (pattern_analysis_of (str_lower w s))) +
        (2 * of_bool (escalation_detected (analyze_session_context w sch session_id)) +
         1 * of_bool (emotional_deterioration (analyze_session_context w sch session_id)) +
         1 * of_bool (previous_interventions (analyze_session_context w sch session_id) > 1) +
         3 / 2 * of_nat (length (high_risk_categories (keyword_analysis_of (str_lower w s)))))\<rfloor>)"
  using calculate_crisis_level_floor
    [of "keyword_analysis_of (lower s)" "pattern_analysis_of (lower s)" ctx]
    calculate_crisis_level_floor
    [of "keyword_analysis_of (str_lower w s)" "pattern_analysis_of (str_lower w s)"
        "analyze_session_context w sch session_id"]
  by (simp only: context_bonus_def crisis_level_normal_analysis)

text \<open>For \<open>msg_critical\<close> the sum is \<open>5 + 0 + 4.5 = 9.5\<close> and the level is 9.\<close>

theorem crisis_level_truncates_witness:
  "calculate_crisis_level (keyword_analysis_of ((\<lambda>s. s) msg_critical))
     (pattern_analysis_of ((\<lambda>s. s) msg_critical)) initial_context = 9 \<and>
   max 0 (min 10 \<lfloor>(19 / 2 :: rat)\<rfloor>) = (9 :: int) \<and>
   crisis_level (normal_analysis quiet_world Map.empty msg_critical ''s1'') = 9"
  using crisis_level_truncates
    [of "\<lambda>s. s" msg_critical initial_context quiet_world Map.empty "''s1''"]
  by (simp add: total_severity_eq pa_severity_eq high_risk_categories_eq counts_critical
      initial_context_def floor_eq_iff quiet_world_simps context_quiet)

text \<open>
  C8. For a fixed session context, if every trigger term (of a category or of a pattern
  list) that occurs in one lower-cased message also occurs in another, then the crisis
  level aggregated for the second message is not below the level aggregated for the
  first; and when the crisis log does not fail, the same holds of the levels of the two
  verdicts of \<^verbatim>\<open>analyze_safety\<close> in the same session state. Adding one more matching
  term or phrase to a message, all other matches unchanged, is the special case of one
  more match.
\<close>

theorem aggregation_monotone:
  assumes "\<forall>k \<in> set trigger_terms. py_in k (str_lower w s) \<longrightarrow> py_in k (str_lower w s')"
  shows "calculate_crisis_level (keyword_analysis_of (str_lower w s))
             (pattern_analysis_of (str_lower w s)) ctx
           \<le> calculate_crisis_level (keyword_analysis_of (str_lower w s'))
               (pattern_analysis_of (str_lower w s')) ctx \<and>
         ((\<forall>cd. log_crisis_event w cd = Inr ()) \<longrightarrow>
            crisis_level (fst (analyze_safety w sch (PyStr s) session_id))
              \<le> crisis_level (fst (analyze_safety w sch (PyStr s') session_id)))"
proof -
  have counts: "count_in ws (str_lower w s) \<le> count_in ws (str_lower w s')"
    if "set ws \<subseteq> set trigger_terms" for ws
  proof (rule count_in_mono)
    from assms that show "\<forall>k \<in> set ws. py_in k (str_lower w s) \<longrightarrow> py_in k (str_lower w s')"
      by blast
  qed
  have agg: "calculate_crisis_level (keyword_analysis_of (str_lower w s))
             (pattern_analysis_of (str_lower w s)) c
           \<le> calculate_crisis_level (keyword_analysis_of (str_lower w s'))
               (pattern_analysis_of (str_lower w s')) c" for c
    by (rule aggregation_monotone_aux) (rule counts)
  have "crisis_level (fst (analyze_safety w sch (PyStr s) session_id))
          \<le> crisis_level (fst (analyze_safety w sch (PyStr s') session_id))"
    if "\<forall>cd. log_crisis_event w cd = Inr ()"
    using that agg [of "analyze_session_context w sch session_id"]
    by (simp add: verdict_quiet_log crisis_level_normal_analysis)
  with agg [of ctx] show ?thesis by blast
qed

text \<open>
  \<open>msg_critical\<close> extends \<open>msg_suicide\<close>, so it matches every term that
  \<open>msg_suicide\<close> matches; the levels are 3 and 9.
\<close>

theorem aggregation_monotone_witness:
  "py_in msg_suicide msg_critical \<and>
   calculate_crisis_level (keyword_analysis_of msg_suicide) (pattern_analysis_of msg_suicide)
     initial_context = 3 \<and>
   calculate_crisis_level (keyword_analysis_of msg_critical) (pattern_analysis_of msg_critical)
     initial_context = 9 \<and>
   crisis_level (fst (analyze_safety quiet_world Map.empty (PyStr msg_suicide) ''s1''))
     \<le> crisis_level (fst (analyze_safety quiet_world Map.empty (PyStr msg_critical) ''s1''))"
proof -
  have h: "\<forall>k \<in> set trigger_terms.
             py_in k (str_lower quiet_world msg_suicide) \<longrightarrow> py_in k (str_lower quiet_world msg_critical)"
    using py_in_trans [OF _ suicide_in_critical] by (simp add: quiet_world_simps)
  have q: "\<forall>cd. log_crisis_event quiet_world cd = Inr ()" by (simp add: quiet_world_simps)
  from aggregation_monotone [OF h, of initial_context Map.empty "''s1''"] q
    suicide_in_critical level_suicide level_critical
  show ?thesis by simp
qed

text \<open>
  C6, as stated, fails: one suicide term alone weighs 3, which gives a sum of
  \<open>0.5 \<times> 3 + 1.5 = 3\<close>. The message \<open>msg_suicide\<close> is the first term of the suicide
  category; in a fresh session without history its verdict has crisis level 3, below 6,
  and urgency \<^verbatim>\<open>low\<close>.
\<close>

theorem suicide_term_counterexample:
  "msg_suicide \<in> set suicide_keywords \<and> py_in msg_suicide (str_lower quiet_world msg_suicide) \<and>
   get_session_history quiet_world ''s1'' = Inr [] \<and> events_of Map.empty ''s1'' = [] \<and>
   crisis_level (fst (analyze_safety quiet_world Map.empty (PyStr msg_suicide) ''s1'')) = 3 \<and>
   urgency (fst (analyze_safety quiet_world Map.empty (PyStr msg_suicide) ''s1'')) = ''low''"
proof -
  have l: "crisis_level (normal_analysis quiet_world Map.empty msg_suicide ''s1'') = 3"
    by (simp add: crisis_level_normal_analysis context_quiet quiet_world_simps level_suicide)
  have v: "fst (analyze_safety quiet_world Map.empty (PyStr msg_suicide) ''s1'') =
             normal_analysis quiet_world Map.empty msg_suicide ''s1''"
    by (simp add: analyze_safety_Str Let_def l threshold_medium_def)
  have c: "0 < count_in suicide_keywords msg_suicide" by (simp add: counts_suicide)
  have u: "urgency (normal_analysis quiet_world Map.empty msg_suicide ''s1'') = ''low''"
    by (simp add: normal_analysis_def Let_def context_quiet quiet_world_simps level_suicide
        type_suicide [OF c] assess_urgency_def)
  have p: "py_in msg_suicide (str_lower quiet_world msg_suicide)"
    by (simp add: quiet_world_simps msg_suicide_def)
  from suicide_term p l u show ?thesis
    by (simp add: v quiet_world_simps events_of_def)
qed

text \<open>
  C6, amended. For a message whose lower-cased text contains a term of the suicide
  category (the terms are Arabic, which \<^verbatim>\<open>str.lower\<close> leaves as they are), analysed in
  a session without conversation history and with a crisis log that does not fail, the
  verdict has crisis type \<^verbatim>\<open>suicide_risk\<close> and a crisis level of at least 3; its
  urgency is \<^verbatim>\<open>immediate\<close> from level 7, \<^verbatim>\<open>urgent\<close> at levels 5 and 6, and
  \<^verbatim>\<open>low\<close> at levels 3 and 4.
\<close>

theorem suicide_term_verdict:
  assumes "\<exists>k \<in> set suicide_keywords. py_in k (str_lower w s)"
    and "get_session_history w session_id = Inr []"
    and "\<forall>cd. log_crisis_event w cd = Inr ()"
  shows "crisis_type (fst (analyze_safety w sch (PyStr s) session_id)) = ''suicide_risk'' \<and>
         3 \<le> crisis_level (fst (analyze_safety w sch (PyStr s) session_id)) \<and>
         urgency (fst (analyze_safety w sch (PyStr s) session_id)) =
           (if 7 \<le> crisis_level (fst (analyze_safety w sch (PyStr s) session_id))
            then ''immediate''
            else if 5 \<le> crisis_level (fst (analyze_safety w sch (PyStr s) session_id))
            then ''urgent'' else ''low'')"
proof -
  let ?ml = "str_lower w s"
  let ?sa = "normal_analysis w sch s session_id"
  from assms(1) have pos: "0 < count_in suicide_keywords ?ml"
    by (auto intro: count_in_pos)
  have ctx: "analyze_session_context w sch session_id = initial_context"
    using assms(2) by (rule context_no_history)
  have v: "fst (analyze_safety w sch (PyStr s) session_id) = ?sa"
    using assms(3) by (simp add: analyze_safety_Str Let_def)
  have ty: "crisis_type ?sa = ''suicide_risk''"
    by (simp add: normal_analysis_def Let_def type_suicide [OF pos])
  have lvl: "3 \<le> crisis_level ?sa"
    unfolding crisis_level_normal_analysis by (rule level_suicide_ge [OF pos])
  have "urgency ?sa = assess_urgency (crisis_level ?sa) (crisis_type ?sa) initial_context"
    by (simp add: normal_analysis_def Let_def ctx)
  also have "\<dots> = (if 7 \<le> crisis_level ?sa then ''immediate''
                    else if 5 \<le> crisis_level ?sa then ''urgent'' else ''low'')"
    unfolding ty using lvl by (intro urgency_suicide) (simp_all add: initial_context_def)
  finally show ?thesis using ty lvl by (simp only: v)
qed

text \<open>\<open>msg_critical\<close> contains the term \<open>msg_suicide\<close>: level 9, urgency \<^verbatim>\<open>immediate\<close>.\<close>

theorem suicide_term_verdict_witness:
  "msg_suicide \<in> set suicide_keywords \<and> py_in msg_suicide (str_lower quiet_world msg_critical) \<and>
   get_session_history quiet_world ''s1'' = Inr [] \<and>
   crisis_type (fst (analyze_safety quiet_world Map.empty (PyStr msg_critical) ''s1'')) = ''suicide_risk'' \<and>
   crisis_level (fst (analyze_safety quiet_world Map.empty (PyStr msg_critical) ''s1'')) = 9 \<and>
   urgency (fst (analyze_safety quiet_world Map.empty (PyStr msg_critical) ''s1'')) = ''immediate''"
proof -
  have p: "py_in msg_suicide (str_lower quiet_world msg_critical)"
    by (simp add: quiet_world_simps suicide_in_critical)
  with suicide_term have h1: "\<exists>k \<in> set suicide_keywords. py_in k (str_lower quiet_world msg_critical)"
    by blast
  have h2: "get_session_history quiet_world ''s1'' = Inr []" by (simp add: quiet_world_simps)
  have h3: "\<forall>cd. log_crisis_event quiet_world cd = Inr ()" by (simp add: quiet_world_simps)
  have l: "crisis_level (fst (analyze_safety quiet_world Map.empty (PyStr msg_critical) ''s1'')) = 9"
    by (simp add: analyze_critical_quiet normal_level_critical)
  from suicide_term_verdict [OF h1 h2 h3, of Map.empty] suicide_term p h2 l
  show ?thesis by simp
qed

end
